theory Spec2Isabelle
  imports Complex_Main
begin

section \<open>Data model (types.ts)\<close>

text \<open>
  JavaScript numbers are modelled as unbounded integers: identifiers, the 0/1 flags, the
  priority code and all timestamps (whole seconds; on whole numbers \<^verbatim>\<open>Math.floor\<close> is the
  identity). A nullable column is an \<open>option\<close>. A \<^verbatim>\<open>Date\<close> is its time value in
  milliseconds, \<open>None\<close> standing for an invalid date.
\<close>

record JoinedReminder =
  jId :: int
  jTitle :: "string option"
  jNotes :: "string option"
  jCompleted :: int
  jFlagged :: int
  jPriority :: int
  jDueDate :: "int option"
  jCreationDate :: int
  jLastModifiedDate :: "int option"
  jCompletionDate :: "int option"
  jListId :: int
  jListName :: "string option"
  jMarkedForDeletion :: int

record IndexedReminder =
  reminderId :: int
  title :: string
  reminderNotes :: string
  listName :: string
  listId :: int
  completed :: bool
  flagged :: bool
  priority :: int
  dueDate :: "int option"
  creationDate :: int
  completionDate :: "int option"

type_synonym jsdate = "int option"

record IndexStats =
  totalReminders :: int
  totalLists :: int
  completedReminders :: int
  pendingReminders :: int
  indexedAt :: jsdate
  oldestReminder :: jsdate
  newestReminder :: jsdate
  lastIndexedRowid :: "int option"

definition APPLE_EPOCH_OFFSET :: int where
  "APPLE_EPOCH_OFFSET = 978307200"

definition appleToUnix :: "int \<Rightarrow> int" where
  "appleToUnix appleDate = appleDate + APPLE_EPOCH_OFFSET"

section \<open>The source directory\<close>

text \<open>
  A source database is given by the rows of \<^verbatim>\<open>ZREMCDREMINDER r LEFT JOIN ZREMCDBASELIST l\<close>
  in table order, before the \<^verbatim>\<open>WHERE\<close> and \<^verbatim>\<open>ORDER BY\<close> of the queries. A file of the source
  directory has a name, a modification time (\<open>None\<close> when \<^verbatim>\<open>statSync\<close> throws) and a content
  (\<open>None\<close> when it cannot be copied, opened or queried).
\<close>

record SourceFile =
  fileName :: string
  fileMtime :: "int option"
  fileRows :: "JoinedReminder list option"

datatype SourceDir = Absent | Unreadable | Listing "SourceFile list"

text \<open>
  What the code throws: \<open>SourceNotFound\<close> is the error of \<^verbatim>\<open>queryAllDatabases\<close> and
  \<^verbatim>\<open>updateIndex\<close> ("Reminders databases not found"), \<open>IndexNotFound\<close> and
  \<open>FuzzyIndexNotFound\<close> are the errors of \<^verbatim>\<open>getDb\<close> and \<^verbatim>\<open>getMiniSearch\<close>; \<open>FsError\<close>,
  \<open>SqliteError\<close> and \<open>DuplicateId\<close> are the exceptions of the file system, of SQLite and of
  MiniSearch.
\<close>

datatype error =
  SourceNotFound | FsError | SqliteError | DuplicateId | IndexNotFound | FuzzyIndexNotFound

text \<open>
  \<^verbatim>\<open>findRemindersDatabases\<close>: no directory gives the empty list; \<^verbatim>\<open>readdirSync\<close> throws on a
  directory that exists and cannot be listed.
\<close>

definition startsWith :: "string \<Rightarrow> string \<Rightarrow> bool" where
  "startsWith s p \<longleftrightarrow> take (length p) s = p"

definition endsWith :: "string \<Rightarrow> string \<Rightarrow> bool" where
  "endsWith s p \<longleftrightarrow> length p \<le> length s \<and> drop (length s - length p) s = p"

definition isDatabaseName :: "string \<Rightarrow> bool" where
  "isDatabaseName f \<longleftrightarrow> startsWith f ''Data-'' \<and> endsWith f ''.sqlite''"

fun findRemindersDatabases :: "SourceDir \<Rightarrow> error + SourceFile list" where
  "findRemindersDatabases Absent = Inr []"
| "findRemindersDatabases Unreadable = Inl FsError"
| "findRemindersDatabases (Listing fs) = Inr (filter (\<lambda>f. isDatabaseName (fileName f)) fs)"

section \<open>Ingestion and deduplication (queryAllDatabases)\<close>

text \<open>Template literals: \<^verbatim>\<open>`${x}`\<close> of \<^verbatim>\<open>null\<close> is \<^verbatim>\<open>null\<close>, of a whole number its decimal digits.\<close>

definition digitChar :: "nat \<Rightarrow> char" where
  "digitChar d = ''0123456789'' ! d"

fun natToString :: "nat \<Rightarrow> string" where
  "natToString n = (if n < 10 then [digitChar n] else natToString (n div 10) @ [digitChar (n mod 10)])"

declare natToString.simps [simp del]

definition numToString :: "int \<Rightarrow> string" where
  "numToString i = (if i < 0 then CHR ''-'' # natToString (nat (- i)) else natToString (nat i))"

definition strToString :: "string option \<Rightarrow> string" where
  "strToString s = (case s of None \<Rightarrow> ''null'' | Some t \<Rightarrow> t)"

definition dedupKey :: "JoinedReminder \<Rightarrow> string" where
  "dedupKey r =
     strToString (jTitle r) @ ''|'' @ strToString (jListName r) @ ''|'' @ numToString (jCreationDate r)"

text \<open>
  The query of the full build: rows not marked for deletion, by creation date ascending
  (ties, which SQL leaves open, in table order).
\<close>

definition selectReminders :: "JoinedReminder list \<Rightarrow> JoinedReminder list" where
  "selectReminders rows = sort_key jCreationDate (filter (\<lambda>r. jMarkedForDeletion r = 0) rows)"

record IngestState =
  allReminders :: "JoinedReminder list"
  seenTitles :: "string set"
  globalIdCounter :: int

fun dedupeRows :: "IngestState \<Rightarrow> JoinedReminder list \<Rightarrow> IngestState" where
  "dedupeRows s [] = s"
| "dedupeRows s (r # rs) =
     (if dedupKey r \<notin> seenTitles s
      then dedupeRows
             \<lparr>allReminders = allReminders s @ [r\<lparr>jId := globalIdCounter s\<rparr>],
              seenTitles = insert (dedupKey r) (seenTitles s),
              globalIdCounter = globalIdCounter s + 1\<rparr> rs
      else dedupeRows s rs)"

fun scanDatabases :: "IngestState \<Rightarrow> SourceFile list \<Rightarrow> IngestState" where
  "scanDatabases s [] = s"
| "scanDatabases s (f # fs) =
     (case fileRows f of
        None \<Rightarrow> scanDatabases s fs
      | Some rows \<Rightarrow> scanDatabases (dedupeRows s (selectReminders rows)) fs)"

definition queryAllDatabases :: "SourceDir \<Rightarrow> error + JoinedReminder list" where
  "queryAllDatabases src =
     (case findRemindersDatabases src of
        Inl e \<Rightarrow> Inl e
      | Inr dbs \<Rightarrow>
          if dbs = [] then Inl SourceNotFound
          else Inr (allReminders
                 (scanDatabases \<lparr>allReminders = [], seenTitles = {}, globalIdCounter = 1\<rparr> dbs)))"

section \<open>The index directory and the searcher's cached handles\<close>

record ReminderRow =
  col_id :: int
  col_title :: string
  col_notes :: "string option"
  col_list_name :: string
  col_list_id :: int
  col_completed :: int
  col_flagged :: int
  col_priority :: int
  col_due_date :: "int option"
  col_creation_date :: int
  col_completion_date :: "int option"

record IndexDb =
  reminders_fts :: "ReminderRow list"
  reminders :: "ReminderRow list"

text \<open>
  A handle opened on the index database reads the file it was opened on: the file at the
  index path (\<open>Live\<close>), or, once \<^verbatim>\<open>unlinkSync\<close> has removed that file, the content it had then
  (\<open>Orphan\<close>). The fuzzy store is the list of documents of the serialized MiniSearch index;
  every field of a document is stored.
\<close>

datatype DbHandle = Live | Orphan IndexDb

text \<open>
  The state the operations work on: the files \<^verbatim>\<open>index.db\<close> (with its modification time),
  \<^verbatim>\<open>fuzzy.json\<close> and \<^verbatim>\<open>stats.json\<close> of the index directory, each absent or with its content,
  and the two module variables of the searcher.
\<close>

record World =
  indexDb :: "IndexDb option"
  indexDbMtime :: int
  fuzzyJson :: "IndexedReminder list option"
  statsJson :: "IndexStats option"
  cachedDb :: "DbHandle option"
  cachedMiniSearch :: "IndexedReminder list option"

definition indexExists :: "World \<Rightarrow> bool" where
  "indexExists w \<longleftrightarrow> indexDb w \<noteq> None \<and> fuzzyJson w \<noteq> None"

text \<open>\<^verbatim>\<open>new Date(x)\<close>: a time value out of range gives an invalid date.\<close>

definition newDate :: "int \<Rightarrow> jsdate" where
  "newDate ms = (if \<bar>ms\<bar> \<le> 8640000000000000 then Some ms else None)"

text \<open>
  \<^verbatim>\<open>JSON.stringify\<close> writes an invalid date as \<^verbatim>\<open>null\<close> and a valid one as its ISO string;
  \<^verbatim>\<open>new Date(null)\<close> is the epoch, and the string of a date is read back as that date.
\<close>

definition parseDate :: "jsdate \<Rightarrow> jsdate" where
  "parseDate d = (case d of None \<Rightarrow> Some 0 | Some ms \<Rightarrow> newDate ms)"

definition getStats :: "World \<Rightarrow> IndexStats option" where
  "getStats w =
     (case statsJson w of
        None \<Rightarrow> None
      | Some data \<Rightarrow>
          Some (data\<lparr>indexedAt := parseDate (indexedAt data),
                     oldestReminder := parseDate (oldestReminder data),
                     newestReminder := parseDate (newestReminder data)\<rparr>))"

definition saveStats :: "IndexStats \<Rightarrow> World \<Rightarrow> World" where
  "saveStats stats w = w\<lparr>statsJson := Some stats\<rparr>"

section \<open>Staleness check (indexNeedsRebuild)\<close>

fun newestMtime :: "int \<Rightarrow> SourceFile list \<Rightarrow> int" where
  "newestMtime newest [] = newest"
| "newestMtime newest (f # fs) =
     (case fileMtime f of
        None \<Rightarrow> newestMtime newest fs
      | Some mtime \<Rightarrow> newestMtime (if mtime > newest then mtime else newest) fs)"

definition getSourceModTime :: "SourceDir \<Rightarrow> error + int" where
  "getSourceModTime src =
     (case findRemindersDatabases src of Inl e \<Rightarrow> Inl e | Inr dbs \<Rightarrow> Inr (newestMtime 0 dbs))"

definition indexNeedsRebuild :: "SourceDir \<Rightarrow> World \<Rightarrow> error + bool" where
  "indexNeedsRebuild src w =
     (if \<not> indexExists w then Inr True
      else case findRemindersDatabases src of
             Inl e \<Rightarrow> Inl e
           | Inr dbs \<Rightarrow>
               if dbs = [] then Inr False
               else (case getSourceModTime src of
                       Inl e \<Rightarrow> Inr True
                     | Inr sourceModTime \<Rightarrow> Inr (sourceModTime > indexDbMtime w)))"

section \<open>Canonical records and the two stores\<close>

text \<open>
  A nullable string is truthy when it is neither \<^verbatim>\<open>null\<close> nor empty; \<open>orElse s d\<close> is
  \<^verbatim>\<open>s || d\<close>. On timestamps, \<^verbatim>\<open>d ? appleToUnix(d) : null\<close> takes both \<^verbatim>\<open>null\<close> and 0 to
  \<^verbatim>\<open>null\<close>.
\<close>

definition truthy :: "string option \<Rightarrow> bool" where
  "truthy s \<longleftrightarrow> (case s of None \<Rightarrow> False | Some t \<Rightarrow> t \<noteq> [])"

definition orElse :: "string option \<Rightarrow> string \<Rightarrow> string" where
  "orElse s d = (case s of None \<Rightarrow> d | Some t \<Rightarrow> if t = [] then d else t)"

definition convertDate :: "int option \<Rightarrow> int option" where
  "convertDate d =
     (case d of None \<Rightarrow> None | Some a \<Rightarrow> if a = 0 then None else Some (appleToUnix a))"

text \<open>
  The record both loops build from a titled row; \<open>now\<close> is \<^verbatim>\<open>Date.now()\<close>, one value for
  the whole run.
\<close>

definition toIndexed :: "int \<Rightarrow> JoinedReminder \<Rightarrow> IndexedReminder" where
  "toIndexed now r =
     \<lparr>reminderId = jId r,
      title = orElse (jTitle r) [],
      reminderNotes = orElse (jNotes r) [],
      listName = orElse (jListName r) ''Reminders'',
      listId = jListId r,
      completed = (jCompleted r = 1),
      flagged = (jFlagged r = 1),
      priority = jPriority r,
      dueDate = convertDate (jDueDate r),
      creationDate =
        (if jCreationDate r \<noteq> 0 then appleToUnix (jCreationDate r) else now div 1000),
      completionDate = convertDate (jCompletionDate r)\<rparr>"

definition toRow :: "IndexedReminder \<Rightarrow> ReminderRow" where
  "toRow r =
     \<lparr>col_id = reminderId r,
      col_title = title r,
      col_notes = Some (reminderNotes r),
      col_list_name = listName r,
      col_list_id = listId r,
      col_completed = (if completed r then 1 else 0),
      col_flagged = (if flagged r then 1 else 0),
      col_priority = priority r,
      col_due_date = dueDate r,
      col_creation_date = creationDate r,
      col_completion_date = completionDate r\<rparr>"

text \<open>
  One transaction: each record goes into both tables; \<^verbatim>\<open>id INTEGER PRIMARY KEY\<close> rejects an
  identifier the table already holds, and the whole batch is then rolled back.
\<close>

fun insertBatch :: "IndexDb \<Rightarrow> IndexedReminder list \<Rightarrow> error + IndexDb" where
  "insertBatch d [] = Inr d"
| "insertBatch d (r # rs) =
     (if reminderId r \<in> col_id ` set (reminders d) then Inl SqliteError
      else insertBatch
             \<lparr>reminders_fts = reminders_fts d @ [toRow r],
              reminders = reminders d @ [toRow r]\<rparr> rs)"

text \<open>\<^verbatim>\<open>MiniSearch.addAll\<close>: documents are added in order; a known identifier throws.\<close>

fun addAll :: "IndexedReminder list \<Rightarrow> IndexedReminder list \<Rightarrow> error + IndexedReminder list" where
  "addAll docs [] = Inr docs"
| "addAll docs (r # rs) =
     (if reminderId r \<in> reminderId ` set docs then Inl DuplicateId
      else addAll (docs @ [r]) rs)"

definition BATCH_SIZE :: nat where
  "BATCH_SIZE = 1000"

section \<open>Full rebuild (buildIndex)\<close>

text \<open>The running values of the loop; \<open>oldestDate = None\<close> is the initial \<^verbatim>\<open>Infinity\<close>.\<close>

record BuildAcc =
  oldestDate :: "int option"
  newestDate :: int
  completedCount :: int
  pendingCount :: int
  indexedReminders :: "IndexedReminder list"
  batch :: "IndexedReminder list"
  db :: IndexDb

fun buildLoop :: "int \<Rightarrow> BuildAcc \<Rightarrow> JoinedReminder list \<Rightarrow> error + BuildAcc" where
  "buildLoop now a [] = Inr a"
| "buildLoop now a (r # rs) =
     (if \<not> truthy (jTitle r) then buildLoop now a rs
      else
        let indexed = toIndexed now r;
            a' = a\<lparr>oldestDate :=
                     (case oldestDate a of
                        None \<Rightarrow> Some (creationDate indexed)
                      | Some od \<Rightarrow>
                          if creationDate indexed < od then Some (creationDate indexed) else Some od),
                   newestDate :=
                     (if creationDate indexed > newestDate a then creationDate indexed
                      else newestDate a),
                   completedCount :=
                     (if completed indexed then completedCount a + 1 else completedCount a),
                   pendingCount :=
                     (if completed indexed then pendingCount a else pendingCount a + 1),
                   indexedReminders := indexedReminders a @ [indexed],
                   batch := batch a @ [indexed]\<rparr>
        in if length (batch a') \<ge> BATCH_SIZE
           then (case insertBatch (db a') (batch a') of
                   Inl e \<Rightarrow> Inl e
                 | Inr d \<Rightarrow> buildLoop now (a'\<lparr>batch := [], db := d\<rparr>) rs)
           else buildLoop now a' rs)"

definition highestId :: "int \<Rightarrow> IndexedReminder list \<Rightarrow> int" where
  "highestId start rs = foldl (\<lambda>m r. if reminderId r > m then reminderId r else m) start rs"

definition secondsToDate :: "int option \<Rightarrow> jsdate" where
  "secondsToDate d = (case d of None \<Rightarrow> None | Some s \<Rightarrow> newDate (s * 1000))"

text \<open>
  \<^verbatim>\<open>unlinkSync\<close> of the index database: a handle the searcher still holds on that file keeps
  reading what the file held.
\<close>

definition unlinkIndexDb :: "World \<Rightarrow> World" where
  "unlinkIndexDb w =
     (case indexDb w of
        None \<Rightarrow> w
      | Some old \<Rightarrow>
          w\<lparr>indexDb := None,
            cachedDb := (case cachedDb w of Some Live \<Rightarrow> Some (Orphan old) | h \<Rightarrow> h)\<rparr>)"

text \<open>
  The part of \<^verbatim>\<open>buildIndex\<close> after ingestion. The fuzzy index is filled in slices of 5000
  for the progress reports; the documents are added in the same order either way. The state
  after a thrown exception is not tracked.
\<close>

definition buildFrom :: "int \<Rightarrow> JoinedReminder list \<Rightarrow> World \<Rightarrow> error + (IndexStats \<times> World)" where
  "buildFrom now rs w0 =
     (let w = unlinkIndexDb w0 in
      case buildLoop now
             \<lparr>oldestDate = None, newestDate = 0, completedCount = 0, pendingCount = 0,
              indexedReminders = [], batch = [],
              db = \<lparr>reminders_fts = [], reminders = []\<rparr>\<rparr> rs of
        Inl e \<Rightarrow> Inl e
      | Inr a \<Rightarrow>
          (case (if batch a \<noteq> [] then insertBatch (db a) (batch a) else Inr (db a)) of
             Inl e \<Rightarrow> Inl e
           | Inr d \<Rightarrow>
               (case addAll [] (indexedReminders a) of
                  Inl e \<Rightarrow> Inl e
                | Inr docs \<Rightarrow>
                    let stats =
                      \<lparr>totalReminders = int (length (indexedReminders a)),
                       totalLists = int (length (remdups (map listId (indexedReminders a)))),
                       completedReminders = completedCount a,
                       pendingReminders = pendingCount a,
                       indexedAt = Some now,
                       oldestReminder = secondsToDate (oldestDate a),
                       newestReminder = newDate (newestDate a * 1000),
                       lastIndexedRowid = Some (highestId 0 (indexedReminders a))\<rparr>
                    in Inr (stats,
                            saveStats stats
                              (w\<lparr>indexDb := Some d, indexDbMtime := now,
                                 fuzzyJson := Some docs\<rparr>)))))"

definition buildIndex :: "int \<Rightarrow> SourceDir \<Rightarrow> World \<Rightarrow> error + (IndexStats \<times> World)" where
  "buildIndex now src w =
     (case queryAllDatabases src of Inl e \<Rightarrow> Inl e | Inr rs \<Rightarrow> buildFrom now rs w)"

section \<open>Incremental update (updateIndex)\<close>

definition selectNewReminders :: "int \<Rightarrow> JoinedReminder list \<Rightarrow> JoinedReminder list" where
  "selectNewReminders rowid rows =
     sort_key jCreationDate (filter (\<lambda>r. jMarkedForDeletion r = 0 \<and> jId r > rowid) rows)"

fun collectNew :: "int \<Rightarrow> JoinedReminder list \<Rightarrow> SourceFile list \<Rightarrow> JoinedReminder list" where
  "collectNew rowid newReminders [] = newReminders"
| "collectNew rowid newReminders (f # fs) =
     (case fileRows f of
        None \<Rightarrow> collectNew rowid newReminders fs
      | Some rows \<Rightarrow> collectNew rowid (newReminders @ selectNewReminders rowid rows) fs)"

text \<open>
  The running values of the update loop. The newest date is \<^verbatim>\<open>getTime() / 1000\<close>, a
  fraction, and \<open>None\<close> when the date is invalid (\<^verbatim>\<open>NaN\<close>, which no comparison replaces).
\<close>

record UpdateAcc =
  newestDateU :: "rat option"
  lastRowid :: int
  newCompleted :: int
  newPending :: int
  indexedRemindersU :: "IndexedReminder list"
  batchU :: "IndexedReminder list"
  dbU :: IndexDb

fun updateLoop :: "int \<Rightarrow> UpdateAcc \<Rightarrow> JoinedReminder list \<Rightarrow> error + UpdateAcc" where
  "updateLoop now a [] = Inr a"
| "updateLoop now a (r # rs) =
     (if \<not> truthy (jTitle r) then updateLoop now a rs
      else
        let indexed = toIndexed now r;
            a' = a\<lparr>newestDateU :=
                     (case newestDateU a of
                        None \<Rightarrow> None
                      | Some nd \<Rightarrow>
                          if of_int (creationDate indexed) > nd
                          then Some (of_int (creationDate indexed)) else Some nd),
                   lastRowid := (if jId r > lastRowid a then jId r else lastRowid a),
                   newCompleted :=
                     (if completed indexed then newCompleted a + 1 else newCompleted a),
                   newPending :=
                     (if completed indexed then newPending a else newPending a + 1),
                   indexedRemindersU := indexedRemindersU a @ [indexed],
                   batchU := batchU a @ [indexed]\<rparr>
        in if length (batchU a') \<ge> BATCH_SIZE
           then (case insertBatch (dbU a') (batchU a') of
                   Inl e \<Rightarrow> Inl e
                 | Inr d \<Rightarrow> updateLoop now (a'\<lparr>batchU := [], dbU := d\<rparr>) rs)
           else updateLoop now a' rs)"

definition toInteger :: "rat \<Rightarrow> int" where
  "toInteger x = (if x \<ge> 0 then \<lfloor>x\<rfloor> else \<lceil>x\<rceil>)"

definition fractionToDate :: "rat option \<Rightarrow> jsdate" where
  "fractionToDate d = (case d of None \<Rightarrow> None | Some s \<Rightarrow> newDate (toInteger (s * 1000)))"

definition dateToFraction :: "jsdate \<Rightarrow> rat option" where
  "dateToFraction d = (case d of None \<Rightarrow> None | Some ms \<Rightarrow> Some (of_int ms / 1000))"

text \<open>
  \<open>Inr (None, w)\<close> is the \<^verbatim>\<open>null\<close> result: no usable stats record. Opening the index
  database where none exists creates an empty one, and preparing the inserts then throws;
  reading a missing fuzzy file throws.
\<close>

definition updateFrom ::
  "int \<Rightarrow> IndexStats \<Rightarrow> int \<Rightarrow> JoinedReminder list \<Rightarrow> World \<Rightarrow> error + (IndexStats option \<times> World)" where
  "updateFrom now existingStats rowid newReminders w =
     (if newReminders = []
      then (let updatedStats = existingStats\<lparr>indexedAt := Some now\<rparr>
            in Inr (Some updatedStats, saveStats updatedStats w))
      else
        case indexDb w of
          None \<Rightarrow> Inl SqliteError
        | Some d0 \<Rightarrow>
            (case fuzzyJson w of
               None \<Rightarrow> Inl FsError
             | Some docs0 \<Rightarrow>
                 (case updateLoop now
                         \<lparr>newestDateU = dateToFraction (newestReminder existingStats),
                          lastRowid = rowid, newCompleted = 0, newPending = 0,
                          indexedRemindersU = [], batchU = [], dbU = d0\<rparr> newReminders of
                    Inl e \<Rightarrow> Inl e
                  | Inr a \<Rightarrow>
                      (case (if batchU a \<noteq> [] then insertBatch (dbU a) (batchU a)
                             else Inr (dbU a)) of
                         Inl e \<Rightarrow> Inl e
                       | Inr d \<Rightarrow>
                           (case addAll docs0 (indexedRemindersU a) of
                              Inl e \<Rightarrow> Inl e
                            | Inr docs \<Rightarrow>
                                let updatedStats =
                                  \<lparr>totalReminders =
                                     totalReminders existingStats
                                       + int (length (indexedRemindersU a)),
                                   totalLists = totalLists existingStats,
                                   completedReminders =
                                     completedReminders existingStats + newCompleted a,
                                   pendingReminders =
                                     pendingReminders existingStats + newPending a,
                                   indexedAt = Some now,
                                   oldestReminder = oldestReminder existingStats,
                                   newestReminder = fractionToDate (newestDateU a),
                                   lastIndexedRowid = Some (lastRowid a)\<rparr>
                                in Inr (Some updatedStats,
                                        saveStats updatedStats
                                          (w\<lparr>indexDb := Some d,
                                             indexDbMtime :=
                                               (if indexedRemindersU a = [] then indexDbMtime w
                                                else now),
                                             fuzzyJson := Some docs\<rparr>)))))))"

definition updateIndex :: "int \<Rightarrow> SourceDir \<Rightarrow> World \<Rightarrow> error + (IndexStats option \<times> World)" where
  "updateIndex now src w =
     (case getStats w of
        None \<Rightarrow> Inr (None, w)
      | Some existingStats \<Rightarrow>
          (case lastIndexedRowid existingStats of
             None \<Rightarrow> Inr (None, w)
           | Some rowid \<Rightarrow>
               if rowid = 0 then Inr (None, w)
               else (case findRemindersDatabases src of
                       Inl e \<Rightarrow> Inl e
                     | Inr dbs \<Rightarrow>
                         if dbs = [] then Inl SourceNotFound
                         else updateFrom now existingStats rowid (collectNew rowid [] dbs) w)))"

section \<open>Freshness (ensureIndex)\<close>

datatype EnsureResult = UpToDate | Incremental | Full

definition hasRowid :: "IndexStats option \<Rightarrow> bool" where
  "hasRowid stats \<longleftrightarrow>
     (case stats of
        None \<Rightarrow> False
      | Some s \<Rightarrow> (case lastIndexedRowid s of None \<Rightarrow> False | Some n \<Rightarrow> n \<noteq> 0))"

definition fullRebuild :: "int \<Rightarrow> SourceDir \<Rightarrow> World \<Rightarrow> error + (EnsureResult \<times> World)" where
  "fullRebuild now src w =
     (case buildIndex now src w of Inl e \<Rightarrow> Inl e | Inr (stats, w') \<Rightarrow> Inr (Full, w'))"

text \<open>The results \<^verbatim>\<open>'none'\<close>, \<^verbatim>\<open>'incremental'\<close> and \<^verbatim>\<open>'full'\<close> are \<open>UpToDate\<close>, \<open>Incremental\<close>, \<open>Full\<close>.\<close>

definition ensureIndex :: "int \<Rightarrow> SourceDir \<Rightarrow> World \<Rightarrow> error + (EnsureResult \<times> World)" where
  "ensureIndex now src w =
     (case indexNeedsRebuild src w of
        Inl e \<Rightarrow> Inl e
      | Inr needed \<Rightarrow>
          if \<not> needed then Inr (UpToDate, w)
          else if hasRowid (getStats w) \<and> indexExists w
          then (case updateIndex now src w of
                  Inl e \<Rightarrow> Inl e
                | Inr (None, w') \<Rightarrow> fullRebuild now src w'
                | Inr (Some stats, w') \<Rightarrow> Inr (Incremental, w'))
          else fullRebuild now src w)"

section \<open>Query routing (searcher.ts)\<close>

record SearchOptions =
  optQuery :: "string option"
  optList :: "string option"
  optCompleted :: "bool option"
  optFlagged :: "bool option"
  optLimit :: int

record SearchResult =
  reminder :: IndexedReminder
  score :: rat
  matchedTerms :: "string list"

subsection \<open>Strings\<close>

text \<open>Characters are bytes; case mapping and white space are those of ASCII.\<close>

definition toLowerChar :: "char \<Rightarrow> char" where
  "toLowerChar c =
     (case map_of (zip ''ABCDEFGHIJKLMNOPQRSTUVWXYZ'' ''abcdefghijklmnopqrstuvwxyz'') c of
        None \<Rightarrow> c
      | Some l \<Rightarrow> l)"

definition toLowerCase :: "string \<Rightarrow> string" where
  "toLowerCase s = map toLowerChar s"

fun strIncludes :: "string \<Rightarrow> string \<Rightarrow> bool" where
  "strIncludes [] p = (p = [])"
| "strIncludes (c # cs) p = (startsWith (c # cs) p \<or> strIncludes cs p)"

definition isWhiteSpace :: "char \<Rightarrow> bool" where
  "isWhiteSpace c \<longleftrightarrow> c \<in> set [CHR '' '', CHR 0x09, CHR 0x0A, CHR 0x0B, CHR 0x0C, CHR 0x0D]"

definition trim :: "string \<Rightarrow> string" where
  "trim s = rev (dropWhile isWhiteSpace (rev (dropWhile isWhiteSpace s)))"

text \<open>\<^verbatim>\<open>xs.slice(0, end)\<close>: a negative end counts from the end of the array.\<close>

definition slice0 :: "int \<Rightarrow> 'a list \<Rightarrow> 'a list" where
  "slice0 e xs = (if e < 0 then take (length xs - nat (- e)) xs else take (nat e) xs)"

subsection \<open>The SQL of the structured store\<close>

text \<open>
  \<^verbatim>\<open>LIKE\<close>: \<^verbatim>\<open>%\<close> matches any sequence of characters, \<^verbatim>\<open>_\<close> any one character, every other
  character itself without regard to ASCII case.
\<close>

fun sqlLike :: "string \<Rightarrow> string \<Rightarrow> bool" where
  "sqlLike [] s = (s = [])"
| "sqlLike (p # ps) [] = (p = CHR ''%'' \<and> sqlLike ps [])"
| "sqlLike (p # ps) (c # cs) =
     (if p = CHR ''%'' then sqlLike ps (c # cs) \<or> sqlLike (p # ps) cs
      else if p = CHR ''_'' then sqlLike ps cs
      else toLowerChar p = toLowerChar c \<and> sqlLike ps cs)"

text \<open>
  \<^verbatim>\<open>LIMIT ?\<close>: the bound number must convert to a 64-bit integer other than the smallest and
  the largest one, or the statement fails with a datatype mismatch; a negative \<open>n\<close> is no
  limit. The limit is an integer here: \<^verbatim>\<open>NaN\<close> and fractions, which fail the same way, are
  outside the model.
\<close>

definition sqlLimit :: "int \<Rightarrow> 'a list \<Rightarrow> error + 'a list" where
  "sqlLimit n rows =
     (if n \<le> - (2 ^ 63) \<or> 2 ^ 63 - 1 \<le> n then Inl SqliteError
      else if n < 0 then Inr rows
      else Inr (take (nat n) rows))"

text \<open>
  \<^verbatim>\<open>ORDER BY due_date ASC NULLS LAST, creation_date DESC\<close> as a stable insertion sort:
  \<open>dueOrder a b\<close> says that \<open>a\<close> need not come after \<open>b\<close>.
\<close>

definition dueOrder :: "ReminderRow \<Rightarrow> ReminderRow \<Rightarrow> bool" where
  "dueOrder a b =
     (case (col_due_date a, col_due_date b) of
        (Some x, Some y) \<Rightarrow> x < y \<or> (x = y \<and> col_creation_date a \<ge> col_creation_date b)
      | (Some x, None) \<Rightarrow> True
      | (None, Some y) \<Rightarrow> False
      | (None, None) \<Rightarrow> col_creation_date a \<ge> col_creation_date b)"

fun insertBy :: "('a \<Rightarrow> 'a \<Rightarrow> bool) \<Rightarrow> 'a \<Rightarrow> 'a list \<Rightarrow> 'a list" where
  "insertBy le x [] = [x]"
| "insertBy le x (y # ys) = (if le x y then x # y # ys else y # insertBy le x ys)"

definition orderBy :: "('a \<Rightarrow> 'a \<Rightarrow> bool) \<Rightarrow> 'a list \<Rightarrow> 'a list" where
  "orderBy le rows = foldr (insertBy le) rows []"

definition completedFilter :: "bool option \<Rightarrow> ReminderRow \<Rightarrow> bool" where
  "completedFilter c row =
     (case c of
        None \<Rightarrow> True
      | Some True \<Rightarrow> col_completed row = 1
      | Some False \<Rightarrow> col_completed row = 0)"

definition flaggedFilter :: "bool option \<Rightarrow> ReminderRow \<Rightarrow> bool" where
  "flaggedFilter f row = (case f of Some True \<Rightarrow> col_flagged row = 1 | _ \<Rightarrow> True)"

subsection \<open>The three strategies\<close>

definition rowToReminder :: "ReminderRow \<Rightarrow> IndexedReminder" where
  "rowToReminder r =
     \<lparr>reminderId = col_id r,
      title = col_title r,
      reminderNotes = orElse (col_notes r) [],
      listName = col_list_name r,
      listId = col_list_id r,
      completed = (col_completed r = 1),
      flagged = (col_flagged r = 1),
      priority = col_priority r,
      dueDate = col_due_date r,
      creationDate = col_creation_date r,
      completionDate = col_completion_date r\<rparr>"

definition structuredResult :: "ReminderRow \<Rightarrow> SearchResult" where
  "structuredResult row = \<lparr>reminder = rowToReminder row, score = 1, matchedTerms = []\<rparr>"

definition searchByList ::
  "IndexDb \<Rightarrow> string \<Rightarrow> bool option \<Rightarrow> int \<Rightarrow> error + SearchResult list" where
  "searchByList d list c limit =
     (let listLower = toLowerCase list;
          pattern = ''%'' @ listLower @ ''%''
      in case sqlLimit limit
                (orderBy dueOrder
                   (filter (\<lambda>row. sqlLike pattern (toLowerCase (col_list_name row))
                                   \<and> completedFilter c row)
                      (reminders d))) of
           Inl e \<Rightarrow> Inl e
         | Inr rows \<Rightarrow> Inr (map structuredResult rows))"

definition getAllReminders ::
  "IndexDb \<Rightarrow> bool option \<Rightarrow> bool option \<Rightarrow> int \<Rightarrow> error + SearchResult list" where
  "getAllReminders d c f limit =
     (case sqlLimit limit
             (orderBy dueOrder
                (filter (\<lambda>row. completedFilter c row \<and> flaggedFilter f row) (reminders d))) of
        Inl e \<Rightarrow> Inl e
      | Inr rows \<Rightarrow> Inr (map structuredResult rows))"

text \<open>
  The fuzzy engine is the MiniSearch library: \<open>engine q docs\<close> are its hits for the query
  \<open>q\<close> on the stored documents, ranked, with the fixed search options. The \<^verbatim>\<open>filter\<close> option
  keeps the hits that satisfy the predicate, in their ranking.
\<close>

type_synonym Engine = "string \<Rightarrow> IndexedReminder list \<Rightarrow> SearchResult list"

definition textFilter ::
  "string option \<Rightarrow> bool option \<Rightarrow> bool option \<Rightarrow> IndexedReminder \<Rightarrow> bool" where
  "textFilter listLower c f result =
     ((case listLower of
         None \<Rightarrow> True
       | Some l \<Rightarrow> l = [] \<or> strIncludes (toLowerCase (listName result)) l)
      \<and> (case c of None \<Rightarrow> True | Some b \<Rightarrow> completed result = b)
      \<and> (case f of Some True \<Rightarrow> flagged result | _ \<Rightarrow> True))"

definition getMiniSearch :: "World \<Rightarrow> error + (IndexedReminder list \<times> World)" where
  "getMiniSearch w =
     (case cachedMiniSearch w of
        Some docs \<Rightarrow> Inr (docs, w)
      | None \<Rightarrow>
          (case fuzzyJson w of
             None \<Rightarrow> Inl FuzzyIndexNotFound
           | Some docs \<Rightarrow> Inr (docs, w\<lparr>cachedMiniSearch := Some docs\<rparr>)))"

definition searchByText ::
  "Engine \<Rightarrow> string \<Rightarrow> string option \<Rightarrow> bool option \<Rightarrow> bool option \<Rightarrow> int \<Rightarrow> World
     \<Rightarrow> error + (SearchResult list \<times> World)" where
  "searchByText engine q list c f limit w =
     (case getMiniSearch w of
        Inl e \<Rightarrow> Inl e
      | Inr (docs, w') \<Rightarrow>
          let listLower = map_option toLowerCase list;
              hasFilters = (truthy list \<or> c \<noteq> None \<or> f \<noteq> None);
              searchLimit = (if hasFilters then limit * 20 else limit);
              fuzzyResults =
                filter (\<lambda>result. textFilter listLower c f (reminder result)) (engine q docs)
          in if fuzzyResults = [] then Inr ([], w')
             else Inr (slice0 limit (slice0 searchLimit fuzzyResults), w'))"

text \<open>
  \<^verbatim>\<open>getDb\<close> gives what the handle reads: the cached handle, or a new one on the index path.
\<close>

definition getDb :: "World \<Rightarrow> error + (IndexDb \<times> World)" where
  "getDb w =
     (case cachedDb w of
        Some (Orphan d) \<Rightarrow> Inr (d, w)
      | Some Live \<Rightarrow> (case indexDb w of None \<Rightarrow> Inl SqliteError | Some d \<Rightarrow> Inr (d, w))
      | None \<Rightarrow>
          (case indexDb w of
             None \<Rightarrow> Inl IndexNotFound
           | Some d \<Rightarrow> Inr (d, w\<lparr>cachedDb := Some Live\<rparr>)))"

definition clearCaches :: "World \<Rightarrow> World" where
  "clearCaches w = w\<lparr>cachedDb := None, cachedMiniSearch := None\<rparr>"

definition hasTextQuery :: "string option \<Rightarrow> bool" where
  "hasTextQuery q \<longleftrightarrow> (case q of None \<Rightarrow> False | Some t \<Rightarrow> t \<noteq> [] \<and> t \<noteq> ''*'' \<and> trim t \<noteq> [])"

definition search ::
  "Engine \<Rightarrow> int \<Rightarrow> SourceDir \<Rightarrow> SearchOptions \<Rightarrow> World \<Rightarrow> error + (SearchResult list \<times> World)" where
  "search engine now src options w0 =
     (case ensureIndex now src w0 of
        Inl e \<Rightarrow> Inl e
      | Inr (updateResult, w1) \<Rightarrow>
          let w = (if updateResult \<noteq> UpToDate then clearCaches w1 else w1)
          in case getDb w of
               Inl e \<Rightarrow> Inl e
             | Inr (d, w') \<Rightarrow>
                 if truthy (optList options) \<and> \<not> hasTextQuery (optQuery options)
                 then (case searchByList d (orElse (optList options) [])
                              (optCompleted options) (optLimit options) of
                         Inl e \<Rightarrow> Inl e
                       | Inr results \<Rightarrow> Inr (results, w'))
                 else if hasTextQuery (optQuery options)
                 then searchByText engine (orElse (optQuery options) []) (optList options)
                        (optCompleted options) (optFlagged options) (optLimit options) w'
                 else (case getAllReminders d (optCompleted options) (optFlagged options)
                              (optLimit options) of
                         Inl e \<Rightarrow> Inl e
                       | Inr results \<Rightarrow> Inr (results, w')))"

subsection \<open>Browse: flagged reminders\<close>

definition getFlaggedReminders ::
  "int \<Rightarrow> SourceDir \<Rightarrow> int \<Rightarrow> World \<Rightarrow> error + (IndexedReminder list \<times> World)" where
  "getFlaggedReminders now src limit w0 =
     (case ensureIndex now src w0 of
        Inl e \<Rightarrow> Inl e
      | Inr (updateResult, w) \<Rightarrow>
          (case getDb w of
             Inl e \<Rightarrow> Inl e
           | Inr (d, w') \<Rightarrow>
               (case sqlLimit limit
                       (orderBy dueOrder
                          (filter (\<lambda>row. col_flagged row = 1 \<and> col_completed row = 0)
                             (reminders d))) of
                  Inl e \<Rightarrow> Inl e
                | Inr rows \<Rightarrow> Inr (map rowToReminder rows, w'))))"

section \<open>Notions used to state the properties\<close>

text \<open>
  The scan of a full ingestion: the rows each readable database yields, file after file.
  Of a sequence, the first occurrence of each key; and the numbering of a sequence from a
  given identifier on. The natural key of a row is its title, list name and creation
  timestamp as the source has them.
\<close>

fun scannedRows :: "SourceFile list \<Rightarrow> JoinedReminder list" where
  "scannedRows [] = []"
| "scannedRows (f # fs) =
     (case fileRows f of None \<Rightarrow> [] | Some rows \<Rightarrow> selectReminders rows) @ scannedRows fs"

definition scanOf :: "SourceDir \<Rightarrow> JoinedReminder list" where
  "scanOf src = (case findRemindersDatabases src of Inl e \<Rightarrow> [] | Inr dbs \<Rightarrow> scannedRows dbs)"

fun firstOccurrences :: "('a \<Rightarrow> 'k) \<Rightarrow> 'a list \<Rightarrow> 'a list" where
  "firstOccurrences key [] = []"
| "firstOccurrences key (x # xs) = x # firstOccurrences key (filter (\<lambda>y. key y \<noteq> key x) xs)"

fun assignIds :: "int \<Rightarrow> JoinedReminder list \<Rightarrow> JoinedReminder list" where
  "assignIds n [] = []"
| "assignIds n (r # rs) = r\<lparr>jId := n\<rparr> # assignIds (n + 1) rs"

definition naturalKey :: "JoinedReminder \<Rightarrow> string option \<times> string option \<times> int" where
  "naturalKey r = (jTitle r, jListName r, jCreationDate r)"

text \<open>
  A row is titled when its title is neither \<^verbatim>\<open>null\<close> nor empty. \<open>canonicalOf\<close> are the
  canonical records of the titled rows of a sequence, \<open>appendRecords\<close> the index database
  with given records appended to both tables. \<open>buildStep\<close> and \<open>updateStep\<close> name what one
  pass of the two loops does to the running values before the batch is looked at.
\<close>

definition titled :: "JoinedReminder \<Rightarrow> bool" where
  "titled r \<longleftrightarrow> truthy (jTitle r)"

definition canonicalOf :: "int \<Rightarrow> JoinedReminder list \<Rightarrow> IndexedReminder list" where
  "canonicalOf now rs = map (toIndexed now) (filter titled rs)"

definition appendRecords :: "IndexedReminder list \<Rightarrow> IndexDb \<Rightarrow> IndexDb" where
  "appendRecords kept d =
     \<lparr>reminders_fts = reminders_fts d @ map toRow kept, reminders = reminders d @ map toRow kept\<rparr>"

definition emptyDb :: IndexDb where
  "emptyDb = \<lparr>reminders_fts = [], reminders = []\<rparr>"

definition buildStep :: "int \<Rightarrow> BuildAcc \<Rightarrow> JoinedReminder \<Rightarrow> BuildAcc" where
  "buildStep now a r =
     a\<lparr>oldestDate :=
         (case oldestDate a of
            None \<Rightarrow> Some (creationDate (toIndexed now r))
          | Some od \<Rightarrow>
              if creationDate (toIndexed now r) < od then Some (creationDate (toIndexed now r))
              else Some od),
       newestDate :=
         (if creationDate (toIndexed now r) > newestDate a then creationDate (toIndexed now r)
          else newestDate a),
       completedCount :=
         (if completed (toIndexed now r) then completedCount a + 1 else completedCount a),
       pendingCount :=
         (if completed (toIndexed now r) then pendingCount a else pendingCount a + 1),
       indexedReminders := indexedReminders a @ [toIndexed now r],
       batch := batch a @ [toIndexed now r]\<rparr>"

definition updateStep :: "int \<Rightarrow> UpdateAcc \<Rightarrow> JoinedReminder \<Rightarrow> UpdateAcc" where
  "updateStep now a r =
     a\<lparr>newestDateU :=
         (case newestDateU a of
            None \<Rightarrow> None
          | Some nd \<Rightarrow>
              if of_int (creationDate (toIndexed now r)) > nd
              then Some (of_int (creationDate (toIndexed now r))) else Some nd),
       lastRowid := (if jId r > lastRowid a then jId r else lastRowid a),
       newCompleted :=
         (if completed (toIndexed now r) then newCompleted a + 1 else newCompleted a),
       newPending :=
         (if completed (toIndexed now r) then newPending a else newPending a + 1),
       indexedRemindersU := indexedRemindersU a @ [toIndexed now r],
       batchU := batchU a @ [toIndexed now r]\<rparr>"

text \<open>
  Of a source directory: whether a database file is found in it, and the rows an
  incremental update reads from it past a given identifier. Of a world: the high-water-mark
  its stats file holds.
\<close>

definition foundDatabases :: "SourceDir \<Rightarrow> bool" where
  "foundDatabases src \<longleftrightarrow>
     (case findRemindersDatabases src of Inl e \<Rightarrow> False | Inr dbs \<Rightarrow> dbs \<noteq> [])"

definition deltaOf :: "int \<Rightarrow> SourceDir \<Rightarrow> JoinedReminder list" where
  "deltaOf rowid src =
     (case findRemindersDatabases src of Inl e \<Rightarrow> [] | Inr dbs \<Rightarrow> collectNew rowid [] dbs)"

definition persistedRowid :: "World \<Rightarrow> int option" where
  "persistedRowid w = (case statsJson w of None \<Rightarrow> None | Some s \<Rightarrow> lastIndexedRowid s)"

text \<open>
  A date of the stats file is valid when it is not \<^verbatim>\<open>null\<close> and lies in the range of a date.
\<close>

definition validDate :: "jsdate \<Rightarrow> bool" where
  "validDate d \<longleftrightarrow> (case d of None \<Rightarrow> False | Some ms \<Rightarrow> \<bar>ms\<bar> \<le> 8640000000000000)"

text \<open>The titles the structured store holds, in table order.\<close>

definition indexedTitles :: "World \<Rightarrow> string list" where
  "indexedTitles w = (case indexDb w of None \<Rightarrow> [] | Some d \<Rightarrow> map col_title (reminders d))"

section \<open>Example inputs\<close>

definition buyMilk :: "int \<Rightarrow> JoinedReminder" where
  "buyMilk pk =
     \<lparr>jId = pk, jTitle = Some ''Buy milk'', jNotes = None, jCompleted = 0, jFlagged = 0,
      jPriority = 0, jDueDate = None, jCreationDate = 700000000, jLastModifiedDate = None,
      jCompletionDate = None, jListId = 3, jListName = Some ''Groceries'',
      jMarkedForDeletion = 0\<rparr>"

definition twoStores :: SourceDir where
  "twoStores = Listing
     [\<lparr>fileName = ''Data-A.sqlite'', fileMtime = Some 10, fileRows = Some [buyMilk 7]\<rparr>,
      \<lparr>fileName = ''Data-B.sqlite'', fileMtime = Some 20, fileRows = Some [buyMilk 4]\<rparr>]"

definition strayFile :: SourceFile where
  "strayFile = \<lparr>fileName = ''notes.txt'', fileMtime = Some 10, fileRows = None\<rparr>"

definition mkRow :: "int \<Rightarrow> string \<Rightarrow> string \<Rightarrow> int \<Rightarrow> int \<Rightarrow> ReminderRow" where
  "mkRow i t l c f =
     \<lparr>col_id = i, col_title = t, col_notes = Some [], col_list_name = l, col_list_id = 3,
      col_completed = c, col_flagged = f, col_priority = 0, col_due_date = None,
      col_creation_date = 1678307200 + i, col_completion_date = None\<rparr>"

definition storeWorld :: "ReminderRow list \<Rightarrow> World" where
  "storeWorld rows =
     \<lparr>indexDb = Some \<lparr>reminders_fts = rows, reminders = rows\<rparr>, indexDbMtime = 100,
      fuzzyJson = Some (map rowToReminder rows), statsJson = None,
      cachedDb = None, cachedMiniSearch = None\<rparr>"

definition pendingStore :: World where
  "pendingStore = storeWorld [mkRow 1 ''Buy milk'' ''Groceries'' 0 0, mkRow 2 ''Call'' ''Work'' 0 0]"

definition flaggedStore :: World where
  "flaggedStore = storeWorld
     [mkRow 1 ''Buy milk'' ''Groceries'' 0 1, mkRow 2 ''Call'' ''Work'' 1 1,
      mkRow 3 ''Other'' ''Work'' 0 0]"

definition noEngine :: Engine where
  "noEngine q docs = []"

definition listQuery :: "string \<Rightarrow> SearchOptions" where
  "listQuery l =
     \<lparr>optQuery = Some ''*'', optList = Some l, optCompleted = None, optFlagged = Some True,
      optLimit = 10\<rparr>"

definition browseQuery :: "int \<Rightarrow> SearchOptions" where
  "browseQuery n =
     \<lparr>optQuery = None, optList = None, optCompleted = None, optFlagged = None, optLimit = n\<rparr>"

definition reminderRow :: "int \<Rightarrow> string option \<Rightarrow> int \<Rightarrow> JoinedReminder" where
  "reminderRow pk t created =
     \<lparr>jId = pk, jTitle = t, jNotes = None, jCompleted = 0, jFlagged = 0, jPriority = 0,
      jDueDate = None, jCreationDate = created, jLastModifiedDate = None,
      jCompletionDate = None, jListId = 3, jListName = Some ''Groceries'',
      jMarkedForDeletion = 0\<rparr>"

definition database :: "string \<Rightarrow> JoinedReminder list \<Rightarrow> SourceFile" where
  "database name rows = \<lparr>fileName = name, fileMtime = Some 500, fileRows = Some rows\<rparr>"

definition emptyWorld :: World where
  "emptyWorld =
     \<lparr>indexDb = None, indexDbMtime = 0, fuzzyJson = None, statsJson = None,
      cachedDb = None, cachedMiniSearch = None\<rparr>"

definition indexedWorld :: "int \<Rightarrow> IndexedReminder list \<Rightarrow> IndexStats \<Rightarrow> World" where
  "indexedWorld mtime kept stats =
     \<lparr>indexDb = Some (appendRecords kept emptyDb), indexDbMtime = mtime, fuzzyJson = Some kept,
      statsJson = Some stats, cachedDb = None, cachedMiniSearch = None\<rparr>"

definition pendingStats :: "int \<Rightarrow> int \<Rightarrow> int \<Rightarrow> int \<Rightarrow> int \<Rightarrow> IndexStats" where
  "pendingStats n stamp oldest newest rowid =
     \<lparr>totalReminders = n, totalLists = 1, completedReminders = 0, pendingReminders = n,
      indexedAt = Some stamp, oldestReminder = Some oldest, newestReminder = Some newest,
      lastIndexedRowid = Some rowid\<rparr>"

text \<open>One store with the reminders a and b; the same with a second store that holds c.\<close>

definition storeA :: SourceDir where
  "storeA = Listing
     [database ''Data-A.sqlite'' [reminderRow 1 (Some ''a'') 10, reminderRow 2 (Some ''b'') 20]]"

definition storeAB :: SourceDir where
  "storeAB = Listing
     [database ''Data-A.sqlite'' [reminderRow 1 (Some ''a'') 10, reminderRow 2 (Some ''b'') 20],
      database ''Data-B.sqlite'' [reminderRow 1 (Some ''c'') 30]]"

definition statsA :: "int \<Rightarrow> IndexStats" where
  "statsA stamp = pendingStats 2 stamp 978307210000 978307220000 2"

definition worldA :: "int \<Rightarrow> World" where
  "worldA stamp =
     indexedWorld 1000000
       [toIndexed 1000000 (reminderRow 1 (Some ''a'') 10),
        toIndexed 1000000 (reminderRow 2 (Some ''b'') 20)] (statsA stamp)"

text \<open>The index of both stores, rebuilt after the second store was removed again.\<close>

definition worldRebuilt :: World where
  "worldRebuilt =
     indexedWorld 3000000
       [toIndexed 3000000 (reminderRow 1 (Some ''a'') 10),
        toIndexed 3000000 (reminderRow 2 (Some ''b'') 20)] (statsA 3000000)"

definition statsAB :: IndexStats where
  "statsAB = pendingStats 3 2000000 978307210000 978307230000 3"

definition worldAB :: World where
  "worldAB =
     indexedWorld 2000000
       [toIndexed 2000000 (reminderRow 1 (Some ''a'') 10),
        toIndexed 2000000 (reminderRow 2 (Some ''b'') 20),
        toIndexed 2000000 (reminderRow 3 (Some ''c'') 30)] statsAB"

text \<open>
  One store whose reminder a has the source identifier 7, and the same store after b was
  added with the source identifier 9.
\<close>

definition storeP :: SourceDir where
  "storeP = Listing [database ''Data-A.sqlite'' [reminderRow 7 (Some ''a'') 10]]"

definition storePQ :: SourceDir where
  "storePQ = Listing
     [database ''Data-A.sqlite'' [reminderRow 7 (Some ''a'') 10, reminderRow 9 (Some ''b'') 20]]"

definition worldP :: World where
  "worldP =
     indexedWorld 1000000 [toIndexed 1000000 (reminderRow 1 (Some ''a'') 10)]
       (pendingStats 1 1000000 978307210000 978307210000 1)"

definition worldPQ :: World where
  "worldPQ =
     indexedWorld 2000000
       [toIndexed 1000000 (reminderRow 1 (Some ''a'') 10),
        toIndexed 2000000 (reminderRow 7 (Some ''a'') 10),
        toIndexed 2000000 (reminderRow 9 (Some ''b'') 20)]
       (pendingStats 3 2000000 978307210000 978307220000 9)"

text \<open>
  One store with the reminder a in list 3 and two untitled rows: one in list 4, created
  after a, and one in list 5, created before a. The same store after c was added in list 3,
  and an untitled row in list 7, created after c.
\<close>

definition rowIn :: "int \<Rightarrow> int \<Rightarrow> string option \<Rightarrow> int \<Rightarrow> JoinedReminder" where
  "rowIn l pk t created = (reminderRow pk t created)\<lparr>jListId := l\<rparr>"

definition storeM :: SourceDir where
  "storeM = Listing
     [database ''Data-A.sqlite''
        [reminderRow 1 (Some ''a'') 10, rowIn 4 2 None 20, rowIn 5 3 (Some []) 5]]"

definition storeM' :: SourceDir where
  "storeM' = Listing
     [database ''Data-A.sqlite''
        [reminderRow 1 (Some ''a'') 10, rowIn 4 2 None 20, rowIn 5 3 (Some []) 5,
         reminderRow 5 (Some ''c'') 30, rowIn 7 6 None 40]]"

definition worldM :: World where
  "worldM =
     indexedWorld 1000000 [toIndexed 1000000 (reminderRow 2 (Some ''a'') 10)]
       (pendingStats 1 1000000 978307210000 978307210000 2)"

definition worldM' :: World where
  "worldM' =
     indexedWorld 2000000
       [toIndexed 1000000 (reminderRow 2 (Some ''a'') 10),
        toIndexed 2000000 (reminderRow 5 (Some ''c'') 30)]
       (pendingStats 2 2000000 978307210000 978307230000 5)"

text \<open>
  One store whose only reminder was created beyond the range of a date, and the index a
  full rebuild makes of it.
\<close>

definition storeF :: SourceDir where
  "storeF = Listing [database ''Data-A.sqlite'' [reminderRow 1 (Some ''a'') 10000000000000]]"

definition statsF :: IndexStats where
  "statsF =
     \<lparr>totalReminders = 1, totalLists = 1, completedReminders = 0, pendingReminders = 1,
      indexedAt = Some 1000000, oldestReminder = None, newestReminder = None,
      lastIndexedRowid = Some 1\<rparr>"

definition worldF :: World where
  "worldF =
     indexedWorld 1000000 [toIndexed 1000000 (reminderRow 1 (Some ''a'') 10000000000000)] statsF"

text \<open>
  Two stores. The first holds a reminder titled \<^verbatim>\<open>a|b\<close> in the list \<^verbatim>\<open>c\<close>, a reminder titled
  \<^verbatim>\<open>a\<close> in the list \<^verbatim>\<open>b|c\<close> created in the same second, and Buy milk in the list named
  Reminders; the second holds Buy milk, created in the same second, in no list. Below, the
  index a full rebuild makes of them.
\<close>

definition listed :: "int \<Rightarrow> string \<Rightarrow> string option \<Rightarrow> int \<Rightarrow> JoinedReminder" where
  "listed pk t l created = (reminderRow pk (Some t) created)\<lparr>jListName := l\<rparr>"

definition storeK :: SourceDir where
  "storeK = Listing
     [database ''Data-A.sqlite''
        [listed 7 ''a|b'' (Some ''c'') 20, listed 9 ''a'' (Some ''b|c'') 20,
         listed 10 ''Buy milk'' (Some ''Reminders'') 40],
      database ''Data-B.sqlite'' [listed 4 ''Buy milk'' None 40]]"

definition keptK :: "IndexedReminder list" where
  "keptK =
     [toIndexed 1000000 (listed 1 ''a|b'' (Some ''c'') 20),
      toIndexed 1000000 (listed 2 ''Buy milk'' (Some ''Reminders'') 40),
      toIndexed 1000000 (listed 3 ''Buy milk'' None 40)]"

definition worldK :: World where
  "worldK = indexedWorld 1000000 keptK (pendingStats 3 1000000 978307220000 978307240000 3)"

section \<open>Ingestion: deduplication and numbering\<close>

lemmas ingest_eval =
  queryAllDatabases_def isDatabaseName_def startsWith_def endsWith_def selectReminders_def
  dedupKey_def strToString_def numToString_def natToString.simps digitChar_def

lemma dedupKey_jId [simp]: "dedupKey (r\<lparr>jId := n\<rparr>) = dedupKey r"
  by (simp add: dedupKey_def)

lemma dedupKey_naturalKey: "naturalKey a = naturalKey b \<Longrightarrow> dedupKey a = dedupKey b"
  by (simp add: naturalKey_def dedupKey_def)

lemma dedupeRows_append:
  "dedupeRows s (xs @ ys) = dedupeRows (dedupeRows s xs) ys"
  by (induction xs arbitrary: s) simp_all

lemma scanDatabases_scannedRows:
  "scanDatabases s dbs = dedupeRows s (scannedRows dbs)"
  by (induction dbs arbitrary: s) (simp_all add: dedupeRows_append split: option.splits)

lemma filter_unseen:
  "filter (\<lambda>y. dedupKey y \<noteq> k) (filter (\<lambda>y. dedupKey y \<notin> seen) rs)
     = filter (\<lambda>y. dedupKey y \<notin> insert k seen) rs"
  by (induction rs) auto

lemma dedupeRows_firstOccurrences:
  "allReminders (dedupeRows s rs) =
     allReminders s @ assignIds (globalIdCounter s)
       (firstOccurrences dedupKey (filter (\<lambda>r. dedupKey r \<notin> seenTitles s) rs))"
proof (induction rs arbitrary: s)
  case Nil
  show ?case by simp
next
  case (Cons r rs)
  show ?case
  proof (cases "dedupKey r \<in> seenTitles s")
    case True
    then show ?thesis using Cons.IH [of s] by simp
  next
    case False
    then show ?thesis
      by (simp add: Cons.IH filter_unseen [symmetric] conj_commute)
  qed
qed

lemma set_firstOccurrences: "set (firstOccurrences key xs) \<subseteq> set xs"
  by (induction key xs rule: firstOccurrences.induct) auto

lemma distinct_firstOccurrences: "distinct (map key (firstOccurrences key xs))"
proof (induction key xs rule: firstOccurrences.induct)
  case (1 key)
  show ?case by simp
next
  case (2 key x xs)
  have "key x \<notin> key ` set (firstOccurrences key (filter (\<lambda>y. key y \<noteq> key x) xs))"
    using set_firstOccurrences [of key "filter (\<lambda>y. key y \<noteq> key x) xs"] by auto
  with 2 show ?case by simp
qed

lemma map_key_assignIds: "map dedupKey (assignIds n rs) = map dedupKey rs"
  by (induction rs arbitrary: n) simp_all

lemma length_assignIds [simp]: "length (assignIds n rs) = length rs"
  by (induction rs arbitrary: n) simp_all

lemma map_jId_assignIds: "map jId (assignIds n rs) = [n..n + int (length rs) - 1]"
proof (induction rs arbitrary: n)
  case Nil
  show ?case by simp
next
  case (Cons r rs)
  have "[n..n + int (length (r # rs)) - 1] = n # [n + 1..n + 1 + int (length rs) - 1]"
    by (simp add: upto_rec1)
  with Cons show ?case by simp
qed

lemma distinct_key_inj:
  assumes "distinct (map key xs)" "a \<in> set xs" "b \<in> set xs" "key a = key b"
  shows "a = b"
  using assms by (meson distinct_map inj_on_def)

lemma queryAllDatabases_Inr:
  assumes "queryAllDatabases src = Inr out"
  shows "out = assignIds 1 (firstOccurrences dedupKey (scanOf src))"
proof -
  from assms obtain dbs where dbs: "findRemindersDatabases src = Inr dbs"
    and out: "out = allReminders
       (scanDatabases \<lparr>allReminders = [], seenTitles = {}, globalIdCounter = 1\<rparr> dbs)"
    by (auto simp: queryAllDatabases_def split: sum.splits if_splits)
  show ?thesis
    by (simp add: out scanDatabases_scannedRows dedupeRows_firstOccurrences scanOf_def dbs)
qed

lemma queryAllDatabases_ids:
  assumes "queryAllDatabases src = Inr out"
  shows "map jId out = [1..int (length out)]"
proof -
  let ?kept = "firstOccurrences dedupKey (scanOf src)"
  have eq: "out = assignIds 1 ?kept"
    by (rule queryAllDatabases_Inr [OF assms])
  have len: "length out = length ?kept"
    by (subst eq) simp
  have "map jId (assignIds 1 ?kept) = [1..1 + int (length ?kept) - 1]"
    by (rule map_jId_assignIds)
  then show ?thesis
    using eq len by simp
qed

lemma firstOccurrences_unseen_Cons:
  "firstOccurrences key (filter (\<lambda>r. key r \<notin> S) (x # xs)) =
     (if key x \<in> S then firstOccurrences key (filter (\<lambda>r. key r \<notin> S) xs)
      else x # firstOccurrences key (filter (\<lambda>r. key r \<notin> insert (key x) S) xs))"
proof -
  have "filter (\<lambda>y. key y \<noteq> key x) (filter (\<lambda>r. key r \<notin> S) xs)
          = filter (\<lambda>r. key r \<notin> insert (key x) S) xs"
    by (induction xs) auto
  then show ?thesis by simp
qed

lemma firstOccurrences_unseen_first:
  assumes "r \<in> set (firstOccurrences key (filter (\<lambda>r. key r \<notin> S) xs))"
  shows "\<exists>ys zs. xs = ys @ r # zs \<and> key r \<notin> key ` set ys \<and> key r \<notin> S"
  using assms
proof (induction xs arbitrary: S)
  case Nil
  then show ?case by simp
next
  case (Cons x xs)
  show ?case
  proof (cases "key x \<in> S")
    case True
    with Cons.prems have "r \<in> set (firstOccurrences key (filter (\<lambda>r. key r \<notin> S) xs))"
      by (simp only: firstOccurrences_unseen_Cons if_True)
    from Cons.IH [OF this] obtain ys zs
      where "xs = ys @ r # zs" "key r \<notin> key ` set ys" "key r \<notin> S"
      by blast
    with True have "x # xs = (x # ys) @ r # zs \<and> key r \<notin> key ` set (x # ys) \<and> key r \<notin> S"
      by auto
    then show ?thesis by blast
  next
    case False
    with Cons.prems have
      "r = x \<or> r \<in> set (firstOccurrences key (filter (\<lambda>r. key r \<notin> insert (key x) S) xs))"
      by (simp add: firstOccurrences_unseen_Cons del: firstOccurrences.simps filter.simps)
    then show ?thesis
    proof
      assume "r = x"
      with False have "x # xs = [] @ r # xs \<and> key r \<notin> key ` set [] \<and> key r \<notin> S"
        by simp
      then show ?thesis by blast
    next
      assume "r \<in> set (firstOccurrences key (filter (\<lambda>r. key r \<notin> insert (key x) S) xs))"
      from Cons.IH [OF this] obtain ys zs
        where "xs = ys @ r # zs" "key r \<notin> key ` set ys" "key r \<notin> insert (key x) S"
        by blast
      then have "x # xs = (x # ys) @ r # zs \<and> key r \<notin> key ` set (x # ys) \<and> key r \<notin> S"
        by auto
      then show ?thesis by blast
    qed
  qed
qed

lemma firstOccurrences_first:
  assumes "r \<in> set (firstOccurrences key xs)"
  shows "\<exists>ys zs. xs = ys @ r # zs \<and> key r \<notin> key ` set ys"
  using firstOccurrences_unseen_first [of r key "{}" xs] assms by simp

lemma set_assignIds: "r \<in> set (assignIds n xs) \<Longrightarrow> \<exists>x\<in>set xs. r = x\<lparr>jId := jId r\<rparr>"
  by (induction xs arbitrary: n) auto

lemma kept_rows_first:
  assumes "queryAllDatabases src = Inr out" and "r \<in> set out"
  shows "\<exists>ys x zs. scanOf src = ys @ x # zs \<and> r = x\<lparr>jId := jId r\<rparr>
           \<and> naturalKey x \<notin> naturalKey ` set ys"
proof -
  from assms queryAllDatabases_Inr [OF assms(1)]
  obtain x where x: "x \<in> set (firstOccurrences dedupKey (scanOf src))" and r: "r = x\<lparr>jId := jId r\<rparr>"
    using set_assignIds by blast
  from firstOccurrences_first [OF x] obtain ys zs
    where split: "scanOf src = ys @ x # zs" and fresh: "dedupKey x \<notin> dedupKey ` set ys"
    by blast
  have "naturalKey x \<notin> naturalKey ` set ys"
  proof
    assume "naturalKey x \<in> naturalKey ` set ys"
    then obtain y where "y \<in> set ys" "naturalKey x = naturalKey y"
      by blast
    then have "dedupKey x \<in> dedupKey ` set ys"
      using dedupKey_naturalKey [of x y] by simp
    with fresh show False by simp
  qed
  with split r show ?thesis by blast
qed

text \<open>
  A full ingestion keeps, of the rows scanned file after file in creation-date order, the
  first occurrence of each key string, and numbers the kept rows 1, 2, 3, ... whatever
  their source identifiers were. Rows with the same title, list name and creation timestamp
  have the same key string, so at most one of them is returned, and each row returned is,
  but for its new identifier, the first row of the scan with its title, list name and
  creation timestamp.
\<close>

lemma queryAllDatabases_first_occurrences:
  assumes "queryAllDatabases src = Inr out"
  shows "out = assignIds 1 (firstOccurrences dedupKey (scanOf src))
       \<and> map jId out = [1..int (length out)]
       \<and> (\<forall>a\<in>set out. \<forall>b\<in>set out. naturalKey a = naturalKey b \<longrightarrow> a = b)
       \<and> (\<forall>r\<in>set out. \<exists>ys x zs. scanOf src = ys @ x # zs \<and> r = x\<lparr>jId := jId r\<rparr>
              \<and> naturalKey x \<notin> naturalKey ` set ys)"
proof -
  have eq: "out = assignIds 1 (firstOccurrences dedupKey (scanOf src))"
    by (rule queryAllDatabases_Inr [OF assms])
  have "distinct (map dedupKey out)"
    by (simp add: eq map_key_assignIds distinct_firstOccurrences)
  then have one: "\<forall>a\<in>set out. \<forall>b\<in>set out. naturalKey a = naturalKey b \<longrightarrow> a = b"
    using distinct_key_inj [of dedupKey out] dedupKey_naturalKey by blast
  have first: "\<forall>r\<in>set out. \<exists>ys x zs. scanOf src = ys @ x # zs \<and> r = x\<lparr>jId := jId r\<rparr>
              \<and> naturalKey x \<notin> naturalKey ` set ys"
    using kept_rows_first [OF assms] by blast
  from eq queryAllDatabases_ids [OF assms] one first show ?thesis
    by (intro conjI)
qed

lemma twoStores_query: "queryAllDatabases twoStores = Inr [buyMilk 1]"
  by (simp add: twoStores_def buyMilk_def ingest_eval)

section \<open>Ingestion: the missing-source error\<close>

lemma queryAllDatabases_SourceNotFound:
  "queryAllDatabases src = Inl SourceNotFound \<longleftrightarrow> findRemindersDatabases src = Inr []"
  by (cases src) (auto simp: queryAllDatabases_def)

text \<open>
  C7, as the code has it. Ingestion raises the databases-not-found error exactly when no
  source database is found: the source directory is absent, or it exists and holds no file
  named \<^verbatim>\<open>Data-*.sqlite\<close> (an empty directory among them).
\<close>

theorem source_not_found_iff:
  "queryAllDatabases src = Inl SourceNotFound \<longleftrightarrow>
     (src = Absent \<or> (\<exists>fs. src = Listing fs \<and> (\<forall>f\<in>set fs. \<not> isDatabaseName (fileName f))))"
  by (cases src) (auto simp: queryAllDatabases_def filter_empty_conv)

theorem source_not_found_iff_witness:
  "queryAllDatabases (Listing [strayFile]) = Inl SourceNotFound
   \<and> Listing [strayFile] \<noteq> Absent \<and> \<not> isDatabaseName (fileName strayFile)"
  using source_not_found_iff [of "Listing [strayFile]"]
  by (simp add: strayFile_def isDatabaseName_def startsWith_def)

text \<open>
  C7 as stated fails: an existing, empty source directory raises the same error as an
  absent one.
\<close>

theorem empty_directory_raises_counterexample:
  "queryAllDatabases (Listing []) = Inl SourceNotFound \<and> Listing [] \<noteq> Absent"
  by (simp add: queryAllDatabases_def)

section \<open>Query routing: filters and the result limit\<close>

lemmas search_eval =
  search_def ensureIndex_def indexNeedsRebuild_def indexExists_def getDb_def
  searchByList_def getAllReminders_def hasTextQuery_def truthy_def orElse_def
  sqlLimit_def orderBy_def dueOrder_def completedFilter_def flaggedFilter_def
  toLowerCase_def toLowerChar_def

lemma set_insertBy [simp]: "set (insertBy le x xs) = insert x (set xs)"
  by (induction xs) auto

lemma set_orderBy [simp]: "set (orderBy le xs) = set xs"
  by (induction xs) (simp_all add: orderBy_def)

lemma length_insertBy [simp]: "length (insertBy le x xs) = Suc (length xs)"
  by (induction xs) auto

lemma length_orderBy [simp]: "length (orderBy le xs) = length xs"
  by (induction xs) (simp_all add: orderBy_def)

lemma set_sqlLimit: "sqlLimit n xs = Inr ys \<Longrightarrow> set ys \<subseteq> set xs"
  by (auto simp: sqlLimit_def dest: in_set_takeD split: if_splits)

lemma length_sqlLimit: "sqlLimit n xs = Inr ys \<Longrightarrow> 0 \<le> n \<Longrightarrow> int (length ys) \<le> n"
  by (auto simp: sqlLimit_def split: if_splits)

lemma length_slice0: "0 \<le> n \<Longrightarrow> int (length (slice0 n xs)) \<le> n"
  by (simp add: slice0_def)

lemma selected_rows:
  assumes "sqlLimit limit (orderBy le (filter P rows)) = Inr ys"
  shows "\<forall>row\<in>set ys. row \<in> set rows \<and> P row"
  using set_sqlLimit [OF assms] by auto

lemma searchByText_length:
  assumes "searchByText engine q l c f limit w = Inr (results, w')" "0 \<le> limit"
  shows "int (length results) \<le> limit"
  using assms
  by (auto simp: searchByText_def Let_def length_slice0 split: sum.splits prod.splits if_splits)

lemma search_length:
  assumes "search engine now src options w = Inr (results, w')" and "0 \<le> optLimit options"
  shows "int (length results) \<le> optLimit options"
  using assms
  by (auto simp: search_def Let_def searchByList_def getAllReminders_def
      dest: searchByText_length length_sqlLimit split: sum.splits prod.splits if_splits)

lemma completedFilter_row:
  "completedFilter (Some c) row \<Longrightarrow> completed (rowToReminder row) = c"
  by (cases c) (simp_all add: completedFilter_def rowToReminder_def)

lemma flaggedFilter_row:
  "flaggedFilter (Some True) row \<Longrightarrow> flagged (rowToReminder row)"
  by (simp add: flaggedFilter_def rowToReminder_def)

lemma in_slice0: "x \<in> set (slice0 n xs) \<Longrightarrow> x \<in> set xs"
  by (auto simp: slice0_def dest: in_set_takeD split: if_splits)

lemma toLowerCase_eq_Nil [simp]: "toLowerCase l = [] \<longleftrightarrow> l = []"
  by (simp add: toLowerCase_def)

lemma searchByText_filtered:
  assumes "searchByText engine q l c f limit w = Inr (results, w')" and "r \<in> set results"
  shows "textFilter (map_option toLowerCase l) c f (reminder r)"
  using assms
  by (auto simp: searchByText_def Let_def split: sum.splits prod.splits if_splits
      dest!: in_slice0)

text \<open>
  What holds of the filters: the completion filter on every path, the flagged filter on the
  fuzzy text path and on the status browse, the list filter as a substring of the lower-cased
  list name on the fuzzy text path.
\<close>

lemma search_filters:
  assumes "search engine now src options w = Inr (results, w')" and "r \<in> set results"
  shows "(optCompleted options = Some c \<longrightarrow> completed (reminder r) = c)
       \<and> (optFlagged options = Some True
            \<and> (hasTextQuery (optQuery options) \<or> \<not> truthy (optList options))
          \<longrightarrow> flagged (reminder r))
       \<and> (hasTextQuery (optQuery options) \<and> optList options = Some l \<and> l \<noteq> []
          \<longrightarrow> strIncludes (toLowerCase (listName (reminder r))) (toLowerCase l))"
proof -
  from assms(1) obtain res w1 d w2 where
    ens: "ensureIndex now src w = Inr (res, w1)"
    and db: "getDb (if res \<noteq> UpToDate then clearCaches w1 else w1) = Inr (d, w2)"
    by (auto simp: search_def Let_def split: sum.splits prod.splits)
  consider (byList) "truthy (optList options)" "\<not> hasTextQuery (optQuery options)"
    | (byText) "hasTextQuery (optQuery options)"
    | (all) "\<not> truthy (optList options)" "\<not> hasTextQuery (optQuery options)"
    by blast
  then show ?thesis
  proof cases
    case byList
    with assms(1) ens db have
      "searchByList d (orElse (optList options) []) (optCompleted options)
         (optLimit options) = Inr results"
      by (simp add: search_def Let_def split: sum.splits)
    with assms(2) obtain row where
      "r = structuredResult row" "completedFilter (optCompleted options) row"
      by (auto simp: searchByList_def Let_def dest!: selected_rows split: sum.splits)
    with byList show ?thesis
      by (auto simp: structuredResult_def dest: completedFilter_row)
  next
    case byText
    with assms(1) ens db have
      "searchByText engine (orElse (optQuery options) []) (optList options)
         (optCompleted options) (optFlagged options) (optLimit options) w2 = Inr (results, w')"
      by (simp add: search_def Let_def)
    from searchByText_filtered [OF this assms(2)] byText show ?thesis
      by (auto simp: textFilter_def split: option.splits bool.splits)
  next
    case all
    with assms(1) ens db have
      "getAllReminders d (optCompleted options) (optFlagged options)
         (optLimit options) = Inr results"
      by (simp add: search_def Let_def split: sum.splits)
    with assms(2) obtain row where
      "r = structuredResult row" "completedFilter (optCompleted options) row"
      "flaggedFilter (optFlagged options) row"
      by (auto simp: getAllReminders_def dest!: selected_rows split: sum.splits)
    with all show ?thesis
      by (auto simp: structuredResult_def dest: completedFilter_row flaggedFilter_row)
  qed
qed

text \<open>
  C3 fails on the list-only path: \<^verbatim>\<open>searchByList\<close> is not given the flagged filter. A query
  for the flagged reminders of the list Groceries returns the unflagged Buy milk.
\<close>

theorem list_only_search_ignores_flagged:
  "search noEngine 0 Absent (listQuery ''Groceries'') pendingStore =
     Inr ([structuredResult (mkRow 1 ''Buy milk'' ''Groceries'' 0 0)],
          pendingStore\<lparr>cachedDb := Some Live\<rparr>)
   \<and> optFlagged (listQuery ''Groceries'') = Some True
   \<and> \<not> flagged (reminder (structuredResult (mkRow 1 ''Buy milk'' ''Groceries'' 0 0)))"
  by (simp add: search_eval listQuery_def pendingStore_def storeWorld_def mkRow_def
      structuredResult_def rowToReminder_def)

text \<open>
  On the same path the list filter is a \<^verbatim>\<open>LIKE\<close> pattern: the filter \<^verbatim>\<open>W_r\<close> finds the list
  Work, whose name does not contain it.
\<close>

lemma list_only_search_wildcard:
  "search noEngine 0 Absent (listQuery ''W_r'') pendingStore =
     Inr ([structuredResult (mkRow 2 ''Call'' ''Work'' 0 0)],
          pendingStore\<lparr>cachedDb := Some Live\<rparr>)
   \<and> \<not> strIncludes (toLowerCase ''Work'') (toLowerCase ''W_r'')"
  by (simp add: search_eval listQuery_def pendingStore_def storeWorld_def mkRow_def
      startsWith_def)

text \<open>
  C4, as the code has it. With a limit that is not negative, a search returns at most that
  many results.
\<close>

theorem search_limit_bound:
  assumes "search engine now src options w = Inr (results, w')" and "0 \<le> optLimit options"
  shows "int (length results) \<le> optLimit options"
  by (rule search_length [OF assms])

lemma browse_one:
  "search noEngine 0 Absent (browseQuery 1) pendingStore =
     Inr ([structuredResult (mkRow 2 ''Call'' ''Work'' 0 0)], pendingStore\<lparr>cachedDb := Some Live\<rparr>)"
  by (simp add: search_eval browseQuery_def pendingStore_def storeWorld_def mkRow_def)

theorem search_limit_bound_witness:
  "search noEngine 0 Absent (browseQuery 1) pendingStore =
     Inr ([structuredResult (mkRow 2 ''Call'' ''Work'' 0 0)], pendingStore\<lparr>cachedDb := Some Live\<rparr>)
   \<and> 0 \<le> optLimit (browseQuery 1)
   \<and> int (length [structuredResult (mkRow 2 ''Call'' ''Work'' 0 0)]) \<le> optLimit (browseQuery 1)"
proof -
  have lim: "0 \<le> optLimit (browseQuery 1)"
    by (simp add: browseQuery_def)
  from search_limit_bound [OF browse_one lim] browse_one lim show ?thesis
    by blast
qed

text \<open>
  C4 as stated fails: the limit -1 is passed through, and the status browse returns both
  reminders of the store.
\<close>

theorem negative_limit_counterexample:
  "search noEngine 0 Absent (browseQuery (- 1)) pendingStore =
     Inr ([structuredResult (mkRow 2 ''Call'' ''Work'' 0 0),
           structuredResult (mkRow 1 ''Buy milk'' ''Groceries'' 0 0)],
          pendingStore\<lparr>cachedDb := Some Live\<rparr>)
   \<and> \<not> int (length [structuredResult (mkRow 2 ''Call'' ''Work'' 0 0),
                      structuredResult (mkRow 1 ''Buy milk'' ''Groceries'' 0 0)])
        \<le> optLimit (browseQuery (- 1))"
  by (simp add: search_eval browseQuery_def pendingStore_def storeWorld_def mkRow_def)

text \<open>A limit that is no 64-bit integer makes the structured query throw.\<close>

lemma huge_limit_throws:
  "search noEngine 0 Absent (browseQuery (2 ^ 63)) pendingStore = Inl SqliteError"
  by (simp add: search_eval browseQuery_def pendingStore_def storeWorld_def mkRow_def)

section \<open>Browse: flagged reminders\<close>

text \<open>
  C10. Every reminder the flagged browse returns is flagged and not completed, for every
  limit.
\<close>

theorem flagged_browse_excludes_completed:
  assumes "getFlaggedReminders now src limit w = Inr (rs, w')"
  shows "\<forall>r\<in>set rs. flagged r \<and> \<not> completed r"
  using assms
  by (auto simp: getFlaggedReminders_def rowToReminder_def dest!: selected_rows
      split: sum.splits prod.splits)

lemma flaggedStore_browse:
  "getFlaggedReminders 0 Absent 10 flaggedStore =
     Inr ([rowToReminder (mkRow 1 ''Buy milk'' ''Groceries'' 0 1)],
          flaggedStore\<lparr>cachedDb := Some Live\<rparr>)"
  by (simp add: getFlaggedReminders_def search_eval flaggedStore_def storeWorld_def mkRow_def)

theorem flagged_browse_excludes_completed_witness:
  "getFlaggedReminders 0 Absent 10 flaggedStore =
     Inr ([rowToReminder (mkRow 1 ''Buy milk'' ''Groceries'' 0 1)],
          flaggedStore\<lparr>cachedDb := Some Live\<rparr>)
   \<and> flagged (rowToReminder (mkRow 1 ''Buy milk'' ''Groceries'' 0 1))
   \<and> \<not> completed (rowToReminder (mkRow 1 ''Buy milk'' ''Groceries'' 0 1))"
  using flagged_browse_excludes_completed [OF flaggedStore_browse] flaggedStore_browse
  by simp

section \<open>The two stores: what the loops write\<close>

lemma col_id_toRow [simp]: "col_id (toRow x) = reminderId x"
  by (simp add: toRow_def)

lemma map_col_id_toRow [simp]: "map (col_id \<circ> toRow) xs = map reminderId xs"
  by (induction xs) simp_all

lemma reminderId_toIndexed [simp]: "reminderId (toIndexed now r) = jId r"
  by (simp add: toIndexed_def)

lemma completed_toIndexed [simp]: "completed (toIndexed now r) = (jCompleted r = 1)"
  by (simp add: toIndexed_def)

lemma appendRecords_append:
  "appendRecords ys (appendRecords xs d) = appendRecords (xs @ ys) d"
  by (simp add: appendRecords_def)

lemma appendRecords_Nil [simp]: "appendRecords [] d = d"
  by (simp add: appendRecords_def)

lemma reminders_appendRecords [simp]:
  "reminders (appendRecords xs d) = reminders d @ map toRow xs"
  by (simp add: appendRecords_def)

lemma canonicalOf_Nil [simp]: "canonicalOf now [] = []"
  by (simp add: canonicalOf_def)

lemma canonicalOf_titled: "titled r \<Longrightarrow> canonicalOf now (r # rs) = toIndexed now r # canonicalOf now rs"
  by (simp add: canonicalOf_def)

lemma canonicalOf_untitled: "\<not> titled r \<Longrightarrow> canonicalOf now (r # rs) = canonicalOf now rs"
  by (simp add: canonicalOf_def)

lemma map_reminderId_canonicalOf: "map reminderId (canonicalOf now rs) = map jId (filter titled rs)"
  by (simp add: canonicalOf_def)

lemma insertBatch_Inr:
  "insertBatch d xs = Inr d' \<Longrightarrow> d' = appendRecords xs d"
proof (induction xs arbitrary: d)
  case Nil
  then show ?case by (simp add: appendRecords_def)
next
  case (Cons x xs)
  let ?d = "\<lparr>reminders_fts = reminders_fts d @ [toRow x], reminders = reminders d @ [toRow x]\<rparr>"
  from Cons.prems have "insertBatch ?d xs = Inr d'"
    by (simp split: if_splits)
  from Cons.IH [OF this] show ?case
    by (simp add: appendRecords_def)
qed

lemma insertBatch_ok:
  "distinct (map col_id (reminders d) @ map reminderId xs) \<Longrightarrow>
     insertBatch d xs = Inr (appendRecords xs d)"
proof (induction xs arbitrary: d)
  case Nil
  then show ?case by (simp add: appendRecords_def)
next
  case (Cons x xs)
  let ?d = "\<lparr>reminders_fts = reminders_fts d @ [toRow x], reminders = reminders d @ [toRow x]\<rparr>"
  from Cons.prems have fresh: "reminderId x \<notin> col_id ` set (reminders d)"
    by auto
  from Cons.prems have "distinct (map col_id (reminders ?d) @ map reminderId xs)"
    by auto
  from Cons.IH [OF this] fresh show ?case
    by (simp add: appendRecords_def)
qed

lemma addAll_Inr: "addAll docs xs = Inr docs' \<Longrightarrow> docs' = docs @ xs"
proof (induction xs arbitrary: docs)
  case Nil
  then show ?case by simp
next
  case (Cons x xs)
  from Cons.prems have "addAll (docs @ [x]) xs = Inr docs'"
    by (simp split: if_splits)
  from Cons.IH [OF this] show ?case
    by simp
qed

lemma addAll_ok:
  "distinct (map reminderId docs @ map reminderId xs) \<Longrightarrow> addAll docs xs = Inr (docs @ xs)"
proof (induction xs arbitrary: docs)
  case Nil
  then show ?case by simp
next
  case (Cons x xs)
  from Cons.prems have fresh: "reminderId x \<notin> reminderId ` set docs"
    by auto
  from Cons.prems have "distinct (map reminderId (docs @ [x]) @ map reminderId xs)"
    by auto
  from Cons.IH [OF this] fresh show ?case
    by simp
qed

subsection \<open>The loop of the full rebuild\<close>

lemma buildLoop_untitled: "\<not> titled r \<Longrightarrow> buildLoop now a (r # rs) = buildLoop now a rs"
  by (simp add: titled_def)

lemma buildLoop_titled:
  "titled r \<Longrightarrow>
     buildLoop now a (r # rs) =
       (if length (batch (buildStep now a r)) \<ge> BATCH_SIZE
        then (case insertBatch (db (buildStep now a r)) (batch (buildStep now a r)) of
                Inl e \<Rightarrow> Inl e
              | Inr d \<Rightarrow> buildLoop now ((buildStep now a r)\<lparr>batch := [], db := d\<rparr>) rs)
        else buildLoop now (buildStep now a r) rs)"
  unfolding titled_def buildStep_def
  by (simp only: buildLoop.simps Let_def not_True_eq_False if_False)

declare buildLoop.simps(2) [simp del]

lemma buildStep_fields [simp]:
  "batch (buildStep now a r) = batch a @ [toIndexed now r]"
  "db (buildStep now a r) = db a"
  "indexedReminders (buildStep now a r) = indexedReminders a @ [toIndexed now r]"
  "completedCount (buildStep now a r) = completedCount a + (if jCompleted r = 1 then 1 else 0)"
  "pendingCount (buildStep now a r) = pendingCount a + (if jCompleted r = 1 then 0 else 1)"
  by (simp_all add: buildStep_def)

lemma buildLoop_Inr:
  assumes "buildLoop now a rs = Inr a'"
  shows "indexedReminders a' = indexedReminders a @ canonicalOf now rs
       \<and> appendRecords (batch a') (db a') = appendRecords (batch a @ canonicalOf now rs) (db a)
       \<and> completedCount a' = completedCount a + int (length (filter completed (canonicalOf now rs)))
       \<and> pendingCount a' = pendingCount a
            + int (length (filter (\<lambda>r. \<not> completed r) (canonicalOf now rs)))"
  using assms
proof (induction rs arbitrary: a)
  case Nil
  then show ?case by simp
next
  case (Cons r rs)
  show ?case
  proof (cases "titled r")
    case False
    with Cons.prems have "buildLoop now a rs = Inr a'"
      by (simp add: buildLoop_untitled)
    from Cons.IH [OF this] False show ?thesis
      by (simp add: canonicalOf_untitled)
  next
    case True
    note can = canonicalOf_titled [OF True]
    show ?thesis
    proof (cases "length (batch (buildStep now a r)) \<ge> BATCH_SIZE")
      case False
      with Cons.prems True have "buildLoop now (buildStep now a r) rs = Inr a'"
        by (simp add: buildLoop_titled)
      from Cons.IH [OF this] show ?thesis
        by (simp add: can)
    next
      case flush: True
      with Cons.prems True obtain d
        where d: "insertBatch (db (buildStep now a r)) (batch (buildStep now a r)) = Inr d"
          and rest: "buildLoop now ((buildStep now a r)\<lparr>batch := [], db := d\<rparr>) rs = Inr a'"
        by (auto simp: buildLoop_titled split: sum.splits)
      have "d = appendRecords (batch a @ [toIndexed now r]) (db a)"
        using insertBatch_Inr [OF d] by simp
      with Cons.IH [OF rest] show ?thesis
        by (simp add: can appendRecords_append)
    qed
  qed
qed

lemma buildLoop_ok:
  assumes "distinct (map col_id (reminders (db a)) @ map reminderId (batch a)
             @ map reminderId (canonicalOf now rs))"
  shows "\<exists>a'. buildLoop now a rs = Inr a'"
  using assms
proof (induction rs arbitrary: a)
  case Nil
  show ?case by simp
next
  case (Cons r rs)
  show ?case
  proof (cases "titled r")
    case False
    with Cons.prems Cons.IH [of a] show ?thesis
      by (simp add: buildLoop_untitled canonicalOf_untitled)
  next
    case True
    note can = canonicalOf_titled [OF True]
    show ?thesis
    proof (cases "length (batch (buildStep now a r)) \<ge> BATCH_SIZE")
      case False
      have "distinct (map col_id (reminders (db (buildStep now a r)))
              @ map reminderId (batch (buildStep now a r)) @ map reminderId (canonicalOf now rs))"
        using Cons.prems by (auto simp: can)
      from Cons.IH [OF this] False True show ?thesis
        by (simp add: buildLoop_titled)
    next
      case flush: True
      let ?d = "appendRecords (batch a @ [toIndexed now r]) (db a)"
      have "distinct (map col_id (reminders (db a)) @ map reminderId (batch a @ [toIndexed now r]))"
        using Cons.prems by (auto simp: can)
      then have ins: "insertBatch (db a) (batch a @ [toIndexed now r]) = Inr ?d"
        by (rule insertBatch_ok)
      have "distinct (map col_id (reminders (db ((buildStep now a r)\<lparr>batch := [], db := ?d\<rparr>)))
              @ map reminderId (batch ((buildStep now a r)\<lparr>batch := [], db := ?d\<rparr>))
              @ map reminderId (canonicalOf now rs))"
        using Cons.prems by (auto simp: can)
      from Cons.IH [OF this] flush True ins show ?thesis
        by (simp add: buildLoop_titled)
    qed
  qed
qed

lemma Max_insert_max:
  fixes n :: "'a::linorder"
  shows "finite B \<Longrightarrow> Max (insert (max n c) B) = Max (insert n (insert c B))"
  by (cases "B = {}") (simp_all add: max.assoc)

lemma Min_insert_min:
  fixes n :: "'a::linorder"
  shows "finite B \<Longrightarrow> Min (insert (min n c) B) = Min (insert n (insert c B))"
  by (cases "B = {}") (simp_all add: min.assoc)

lemma buildStep_dates:
  "newestDate (buildStep now a r) = max (newestDate a) (creationDate (toIndexed now r))"
  "oldestDate (buildStep now a r) =
     Some (case oldestDate a of None \<Rightarrow> creationDate (toIndexed now r)
           | Some od \<Rightarrow> min od (creationDate (toIndexed now r)))"
  by (simp_all add: buildStep_def max_def min_def split: option.splits)

lemma buildLoop_dates:
  assumes "buildLoop now a rs = Inr a'"
  shows "newestDate a' = Max (insert (newestDate a) (creationDate ` set (canonicalOf now rs)))
       \<and> oldestDate a' =
           (case oldestDate a of
              None \<Rightarrow> if canonicalOf now rs = [] then None
                      else Some (Min (creationDate ` set (canonicalOf now rs)))
            | Some od \<Rightarrow> Some (Min (insert od (creationDate ` set (canonicalOf now rs)))))"
  using assms
proof (induction rs arbitrary: a)
  case Nil
  then show ?case by (simp split: option.splits)
next
  case (Cons r rs)
  show ?case
  proof (cases "titled r")
    case False
    with Cons.prems have "buildLoop now a rs = Inr a'"
      by (simp add: buildLoop_untitled)
    from Cons.IH [OF this] show ?thesis
      unfolding canonicalOf_untitled [OF False] .
  next
    case True
    note can = canonicalOf_titled [OF True]
    have step: "newestDate a' =
          Max (insert (newestDate (buildStep now a r)) (creationDate ` set (canonicalOf now rs)))
       \<and> oldestDate a' =
           (case oldestDate (buildStep now a r) of
              None \<Rightarrow> if canonicalOf now rs = [] then None
                      else Some (Min (creationDate ` set (canonicalOf now rs)))
            | Some od \<Rightarrow> Some (Min (insert od (creationDate ` set (canonicalOf now rs)))))"
    proof (cases "length (batch (buildStep now a r)) \<ge> BATCH_SIZE")
      case False
      with Cons.prems True have "buildLoop now (buildStep now a r) rs = Inr a'"
        by (simp add: buildLoop_titled)
      from Cons.IH [OF this] show ?thesis .
    next
      case flush: True
      with Cons.prems True obtain d
        where rest: "buildLoop now ((buildStep now a r)\<lparr>batch := [], db := d\<rparr>) rs = Inr a'"
        by (auto simp: buildLoop_titled split: sum.splits)
      from Cons.IH [OF rest] show ?thesis by simp
    qed
    show ?thesis
      by (simp add: step can buildStep_dates Max_insert_max Min_insert_min insert_commute
          split: option.splits)
  qed
qed

subsection \<open>The loop of the incremental update\<close>

lemma updateLoop_untitled: "\<not> titled r \<Longrightarrow> updateLoop now a (r # rs) = updateLoop now a rs"
  by (simp add: titled_def)

lemma updateLoop_titled:
  "titled r \<Longrightarrow>
     updateLoop now a (r # rs) =
       (if length (batchU (updateStep now a r)) \<ge> BATCH_SIZE
        then (case insertBatch (dbU (updateStep now a r)) (batchU (updateStep now a r)) of
                Inl e \<Rightarrow> Inl e
              | Inr d \<Rightarrow> updateLoop now ((updateStep now a r)\<lparr>batchU := [], dbU := d\<rparr>) rs)
        else updateLoop now (updateStep now a r) rs)"
  unfolding titled_def updateStep_def
  by (simp only: updateLoop.simps Let_def not_True_eq_False if_False)

declare updateLoop.simps(2) [simp del]

lemma updateStep_fields [simp]:
  "batchU (updateStep now a r) = batchU a @ [toIndexed now r]"
  "dbU (updateStep now a r) = dbU a"
  "indexedRemindersU (updateStep now a r) = indexedRemindersU a @ [toIndexed now r]"
  "newCompleted (updateStep now a r) = newCompleted a + (if jCompleted r = 1 then 1 else 0)"
  "newPending (updateStep now a r) = newPending a + (if jCompleted r = 1 then 0 else 1)"
  "lastRowid (updateStep now a r) = max (lastRowid a) (jId r)"
  by (simp_all add: updateStep_def max_def)

lemma updateLoop_Inr:
  assumes "updateLoop now a rs = Inr a'"
  shows "indexedRemindersU a' = indexedRemindersU a @ canonicalOf now rs
       \<and> appendRecords (batchU a') (dbU a') = appendRecords (batchU a @ canonicalOf now rs) (dbU a)
       \<and> newCompleted a' = newCompleted a + int (length (filter completed (canonicalOf now rs)))
       \<and> newPending a' = newPending a
            + int (length (filter (\<lambda>r. \<not> completed r) (canonicalOf now rs)))
       \<and> lastRowid a \<le> lastRowid a'"
  using assms
proof (induction rs arbitrary: a)
  case Nil
  then show ?case by simp
next
  case (Cons r rs)
  show ?case
  proof (cases "titled r")
    case False
    with Cons.prems have "updateLoop now a rs = Inr a'"
      by (simp add: updateLoop_untitled)
    from Cons.IH [OF this] False show ?thesis
      by (simp add: canonicalOf_untitled)
  next
    case True
    note can = canonicalOf_titled [OF True]
    show ?thesis
    proof (cases "length (batchU (updateStep now a r)) \<ge> BATCH_SIZE")
      case False
      with Cons.prems True have "updateLoop now (updateStep now a r) rs = Inr a'"
        by (simp add: updateLoop_titled)
      from Cons.IH [OF this] show ?thesis
        by (simp add: can)
    next
      case flush: True
      with Cons.prems True obtain d
        where d: "insertBatch (dbU (updateStep now a r)) (batchU (updateStep now a r)) = Inr d"
          and rest: "updateLoop now ((updateStep now a r)\<lparr>batchU := [], dbU := d\<rparr>) rs = Inr a'"
        by (auto simp: updateLoop_titled split: sum.splits)
      have "d = appendRecords (batchU a @ [toIndexed now r]) (dbU a)"
        using insertBatch_Inr [OF d] by simp
      with Cons.IH [OF rest] show ?thesis
        by (simp add: can appendRecords_append)
    qed
  qed
qed

lemma updateStep_newest:
  "newestDateU a = map_option (\<lambda>ms. of_int ms / 1000) n \<Longrightarrow>
   newestDateU (updateStep now a r) =
     map_option (\<lambda>ms. of_int ms / 1000)
       (map_option (\<lambda>ms. max ms (creationDate (toIndexed now r) * 1000)) n)"
proof (cases n)
  case None
  assume "newestDateU a = map_option (\<lambda>ms. of_int ms / 1000) n"
  with None show ?thesis by (simp add: updateStep_def)
next
  case (Some ms)
  assume a: "newestDateU a = map_option (\<lambda>ms. of_int ms / 1000) n"
  let ?c = "creationDate (toIndexed now r)"
  have cmp: "((of_int ms :: rat) / 1000 < of_int ?c) = (ms < ?c * 1000)"
  proof -
    have "((of_int ms :: rat) / 1000 < of_int ?c) = ((of_int ms :: rat) < of_int (?c * 1000))"
      by (simp add: pos_divide_less_eq)
    then show ?thesis by (simp only: of_int_less_iff)
  qed
  show ?thesis
    using a Some cmp by (simp add: updateStep_def max_def)
qed

lemma updateLoop_marks:
  assumes "updateLoop now a rs = Inr a'"
    and "newestDateU a = map_option (\<lambda>ms. of_int ms / 1000) n"
  shows "lastRowid a' = Max (insert (lastRowid a) (reminderId ` set (canonicalOf now rs)))
       \<and> newestDateU a' =
           map_option (\<lambda>ms. of_int ms / 1000)
             (map_option (\<lambda>ms. Max (insert ms ((\<lambda>d. creationDate d * 1000) ` set (canonicalOf now rs)))) n)"
  using assms
proof (induction rs arbitrary: a n)
  case Nil
  then show ?case by (cases n) simp_all
next
  case (Cons r rs)
  show ?case
  proof (cases "titled r")
    case False
    with Cons.prems have "updateLoop now a rs = Inr a'"
      by (simp add: updateLoop_untitled)
    from Cons.IH [OF this Cons.prems(2)] False show ?thesis
      by (simp add: canonicalOf_untitled)
  next
    case True
    note can = canonicalOf_titled [OF True]
    let ?n = "map_option (\<lambda>ms. max ms (creationDate (toIndexed now r) * 1000)) n"
    note nd = updateStep_newest [OF Cons.prems(2), of now r]
    have step: "lastRowid a' =
          Max (insert (lastRowid (updateStep now a r)) (reminderId ` set (canonicalOf now rs)))
       \<and> newestDateU a' =
           map_option (\<lambda>ms. of_int ms / 1000)
             (map_option (\<lambda>ms. Max (insert ms ((\<lambda>d. creationDate d * 1000) ` set (canonicalOf now rs)))) ?n)"
    proof (cases "length (batchU (updateStep now a r)) \<ge> BATCH_SIZE")
      case False
      with Cons.prems True have "updateLoop now (updateStep now a r) rs = Inr a'"
        by (simp add: updateLoop_titled)
      from Cons.IH [OF this nd] show ?thesis .
    next
      case flush: True
      with Cons.prems True obtain d
        where rest: "updateLoop now ((updateStep now a r)\<lparr>batchU := [], dbU := d\<rparr>) rs = Inr a'"
        by (auto simp: updateLoop_titled split: sum.splits)
      have "newestDateU ((updateStep now a r)\<lparr>batchU := [], dbU := d\<rparr>)
          = map_option (\<lambda>ms. of_int ms / 1000) ?n"
        using nd by simp
      from Cons.IH [OF rest this] show ?thesis by simp
    qed
    show ?thesis
      by (cases n) (simp_all add: step can Max_insert_max insert_commute)
  qed
qed

subsection \<open>What a rebuild and an update leave behind\<close>

lemma title_canonicalOf: "d \<in> set (canonicalOf now rs) \<Longrightarrow> title d \<noteq> []"
  by (auto simp: canonicalOf_def titled_def truthy_def toIndexed_def orElse_def split: option.splits)

lemma buildFrom_Inr:
  assumes "buildFrom now rs w = Inr (stats, w')"
  shows "w' = (unlinkIndexDb w)\<lparr>indexDb := Some (appendRecords (canonicalOf now rs) emptyDb),
                indexDbMtime := now, fuzzyJson := Some (canonicalOf now rs),
                statsJson := Some stats\<rparr>
       \<and> totalReminders stats = int (length (canonicalOf now rs))
       \<and> completedReminders stats = int (length (filter completed (canonicalOf now rs)))
       \<and> pendingReminders stats = int (length (filter (\<lambda>r. \<not> completed r) (canonicalOf now rs)))
       \<and> lastIndexedRowid stats = Some (highestId 0 (canonicalOf now rs))"
proof -
  let ?a0 = "\<lparr>oldestDate = None, newestDate = 0, completedCount = 0, pendingCount = 0,
              indexedReminders = [], batch = [],
              db = \<lparr>reminders_fts = [], reminders = []\<rparr>\<rparr>"
  from assms obtain a d docs where
    loop: "buildLoop now ?a0 rs = Inr a"
    and flush: "(if batch a \<noteq> [] then insertBatch (db a) (batch a) else Inr (db a)) = Inr d"
    and docs: "addAll [] (indexedReminders a) = Inr docs"
    and stats: "stats =
                      \<lparr>totalReminders = int (length (indexedReminders a)),
                       totalLists = int (length (remdups (map listId (indexedReminders a)))),
                       completedReminders = completedCount a,
                       pendingReminders = pendingCount a,
                       indexedAt = Some now,
                       oldestReminder = secondsToDate (oldestDate a),
                       newestReminder = newDate (newestDate a * 1000),
                       lastIndexedRowid = Some (highestId 0 (indexedReminders a))\<rparr>"
    and w': "w' = saveStats stats ((unlinkIndexDb w)\<lparr>indexDb := Some d, indexDbMtime := now,
                                 fuzzyJson := Some docs\<rparr>)"
    by (auto simp: buildFrom_def Let_def split: sum.splits)
  note L = buildLoop_Inr [OF loop]
  have ind: "indexedReminders a = canonicalOf now rs"
    using L by simp
  have "d = appendRecords (batch a) (db a)"
    using flush insertBatch_Inr [of "db a" "batch a" d] by (cases "batch a = []") auto
  then have d: "d = appendRecords (canonicalOf now rs) emptyDb"
    using L by (simp add: emptyDb_def)
  have docs': "docs = canonicalOf now rs"
    using addAll_Inr [OF docs] ind by simp
  show ?thesis
    using L by (simp add: w' saveStats_def d docs' stats ind)
qed

lemma highestId_Max: "highestId start rs = Max (insert start (reminderId ` set rs))"
proof (induction rs arbitrary: start)
  case Nil
  show ?case by (simp add: highestId_def)
next
  case (Cons r rs)
  have "highestId start (r # rs) = highestId (max start (reminderId r)) rs"
    by (simp add: highestId_def max_def)
  then show ?case
    by (simp add: Cons.IH Max_insert_max)
qed

lemma buildFrom_stats:
  assumes "buildFrom now rs w = Inr (stats, w')"
  shows "stats =
     \<lparr>totalReminders = int (length (canonicalOf now rs)),
      totalLists = int (card (listId ` set (canonicalOf now rs))),
      completedReminders = int (length (filter completed (canonicalOf now rs))),
      pendingReminders = int (length (filter (\<lambda>r. \<not> completed r) (canonicalOf now rs))),
      indexedAt = Some now,
      oldestReminder =
        (if canonicalOf now rs = [] then None
         else newDate (Min (creationDate ` set (canonicalOf now rs)) * 1000)),
      newestReminder = newDate (Max (insert 0 (creationDate ` set (canonicalOf now rs))) * 1000),
      lastIndexedRowid = Some (Max (insert 0 (reminderId ` set (canonicalOf now rs))))\<rparr>"
proof -
  let ?a0 = "\<lparr>oldestDate = None, newestDate = 0, completedCount = 0, pendingCount = 0,
              indexedReminders = [], batch = [],
              db = \<lparr>reminders_fts = [], reminders = []\<rparr>\<rparr>"
  from assms obtain a where
    loop: "buildLoop now ?a0 rs = Inr a"
    and stats: "stats =
                      \<lparr>totalReminders = int (length (indexedReminders a)),
                       totalLists = int (length (remdups (map listId (indexedReminders a)))),
                       completedReminders = completedCount a,
                       pendingReminders = pendingCount a,
                       indexedAt = Some now,
                       oldestReminder = secondsToDate (oldestDate a),
                       newestReminder = newDate (newestDate a * 1000),
                       lastIndexedRowid = Some (highestId 0 (indexedReminders a))\<rparr>"
    by (auto simp: buildFrom_def Let_def split: sum.splits)
  note L = buildLoop_Inr [OF loop]
  note D = buildLoop_dates [OF loop]
  have ind: "indexedReminders a = canonicalOf now rs"
    using L by simp
  have lists: "length (remdups (map listId (canonicalOf now rs)))
      = card (listId ` set (canonicalOf now rs))"
    by (simp add: length_remdups_card_conv)
  show ?thesis
    using L D by (simp add: stats ind lists highestId_Max secondsToDate_def)
qed

lemma buildFrom_ok:
  assumes "distinct (map jId (filter titled rs))"
  shows "\<exists>stats w'. buildFrom now rs w = Inr (stats, w')"
proof -
  let ?a0 = "\<lparr>oldestDate = None, newestDate = 0, completedCount = 0, pendingCount = 0,
              indexedReminders = [], batch = [],
              db = \<lparr>reminders_fts = [], reminders = []\<rparr>\<rparr>"
  have "distinct (map col_id (reminders (db ?a0)) @ map reminderId (batch ?a0)
          @ map reminderId (canonicalOf now rs))"
    using assms by (simp add: map_reminderId_canonicalOf)
  from buildLoop_ok [OF this] obtain a where loop: "buildLoop now ?a0 rs = Inr a"
    by blast
  note L = buildLoop_Inr [OF loop]
  have ind: "indexedReminders a = canonicalOf now rs"
    using L by simp
  have "reminders (appendRecords (batch a) (db a)) = map toRow (canonicalOf now rs)"
    using L by simp
  then have "map col_id (reminders (db a)) @ map reminderId (batch a)
               = map reminderId (canonicalOf now rs)"
    by (metis col_id_toRow map_append map_map map_col_id_toRow reminders_appendRecords)
  then have "distinct (map col_id (reminders (db a)) @ map reminderId (batch a))"
    using assms by (simp add: map_reminderId_canonicalOf)
  from insertBatch_ok [OF this] obtain d
    where flush: "(if batch a \<noteq> [] then insertBatch (db a) (batch a) else Inr (db a)) = Inr d"
    by (cases "batch a = []") auto
  have "addAll [] (indexedReminders a) = Inr ([] @ indexedReminders a)"
    by (rule addAll_ok) (use assms in \<open>simp add: ind map_reminderId_canonicalOf\<close>)
  with loop flush show ?thesis
    by (simp add: buildFrom_def Let_def)
qed

lemma buildIndex_ok:
  assumes "queryAllDatabases src = Inr rs"
  shows "\<exists>stats w'. buildIndex now src w = Inr (stats, w')"
proof -
  have "distinct (map jId rs)"
    using queryAllDatabases_ids [OF assms] by simp
  then have "distinct (map jId (filter titled rs))"
    by (rule distinct_map_filter)
  from buildFrom_ok [OF this] assms show ?thesis
    by (simp add: buildIndex_def)
qed

lemma map_option_appendRecords_Nil: "map_option (appendRecords []) x = x"
  by (cases x) simp_all

lemma updateFrom_Inr:
  assumes "updateFrom now existing rowid delta w = Inr (res, w')"
    and "lastIndexedRowid existing = Some rowid"
  shows "\<exists>stats new. res = Some stats
       \<and> indexDb w' = map_option (appendRecords (canonicalOf now delta)) (indexDb w)
       \<and> fuzzyJson w' = map_option (\<lambda>docs. docs @ canonicalOf now delta) (fuzzyJson w)
       \<and> statsJson w' = Some stats
       \<and> cachedDb w' = cachedDb w \<and> cachedMiniSearch w' = cachedMiniSearch w
       \<and> totalReminders stats = totalReminders existing + int (length (canonicalOf now delta))
       \<and> completedReminders stats
            = completedReminders existing + int (length (filter completed (canonicalOf now delta)))
       \<and> pendingReminders stats
            = pendingReminders existing
              + int (length (filter (\<lambda>r. \<not> completed r) (canonicalOf now delta)))
       \<and> lastIndexedRowid stats = Some new \<and> rowid \<le> new"
proof (cases "delta = []")
  case True
  with assms show ?thesis
    by (auto simp: updateFrom_def Let_def saveStats_def option.map_ident map_option_appendRecords_Nil)
next
  case False
  let ?a0 = "\<lparr>newestDateU = dateToFraction (newestReminder existing),
                          lastRowid = rowid, newCompleted = 0, newPending = 0,
                          indexedRemindersU = [], batchU = [], dbU = d0\<rparr>"
  from assms(1) False obtain d0 docs0 a d docs where
    d0: "indexDb w = Some d0" and docs0: "fuzzyJson w = Some docs0"
    and loop: "updateLoop now \<lparr>newestDateU = dateToFraction (newestReminder existing),
                          lastRowid = rowid, newCompleted = 0, newPending = 0,
                          indexedRemindersU = [], batchU = [], dbU = d0\<rparr> delta = Inr a"
    and flush: "(if batchU a \<noteq> [] then insertBatch (dbU a) (batchU a) else Inr (dbU a)) = Inr d"
    and docs: "addAll docs0 (indexedRemindersU a) = Inr docs"
    and res: "res = Some \<lparr>totalReminders =
                                     totalReminders existing
                                       + int (length (indexedRemindersU a)),
                                   totalLists = totalLists existing,
                                   completedReminders =
                                     completedReminders existing + newCompleted a,
                                   pendingReminders =
                                     pendingReminders existing + newPending a,
                                   indexedAt = Some now,
                                   oldestReminder = oldestReminder existing,
                                   newestReminder = fractionToDate (newestDateU a),
                                   lastIndexedRowid = Some (lastRowid a)\<rparr>"
    and w': "w' = saveStats (the res) (w\<lparr>indexDb := Some d,
                                             indexDbMtime :=
                                               (if indexedRemindersU a = [] then indexDbMtime w
                                                else now),
                                             fuzzyJson := Some docs\<rparr>)"
    by (auto simp: updateFrom_def Let_def split: sum.splits option.splits)
  note L = updateLoop_Inr [OF loop]
  have ind: "indexedRemindersU a = canonicalOf now delta"
    using L by simp
  have "d = appendRecords (batchU a) (dbU a)"
    using flush insertBatch_Inr [of "dbU a" "batchU a" d] by (cases "batchU a = []") auto
  then have d: "d = appendRecords (canonicalOf now delta) d0"
    using L by simp
  have docs': "docs = docs0 @ canonicalOf now delta"
    using addAll_Inr [OF docs] ind by simp
  show ?thesis
    using L by (simp add: w' res saveStats_def d docs' ind d0 docs0)
qed

lemma toInteger_of_int: "toInteger (of_int m) = m"
  by (simp add: toInteger_def)

lemma updateFrom_stats:
  assumes "updateFrom now existing rowid delta w = Inr (Some stats, w')"
    and "lastIndexedRowid existing = Some rowid"
    and "\<And>ms. newestReminder existing = Some ms \<Longrightarrow> newDate ms = Some ms"
  shows "stats =
     \<lparr>totalReminders = totalReminders existing + int (length (canonicalOf now delta)),
      totalLists = totalLists existing,
      completedReminders =
        completedReminders existing + int (length (filter completed (canonicalOf now delta))),
      pendingReminders =
        pendingReminders existing
          + int (length (filter (\<lambda>r. \<not> completed r) (canonicalOf now delta))),
      indexedAt = Some now,
      oldestReminder = oldestReminder existing,
      newestReminder =
        (case newestReminder existing of
           None \<Rightarrow> None
         | Some ms \<Rightarrow>
             newDate (Max (insert ms ((\<lambda>d. creationDate d * 1000) ` set (canonicalOf now delta))))),
      lastIndexedRowid = Some (Max (insert rowid (reminderId ` set (canonicalOf now delta))))\<rparr>"
proof (cases "delta = []")
  case True
  with assms(1) have "stats = existing\<lparr>indexedAt := Some now\<rparr>"
    by (auto simp: updateFrom_def Let_def)
  with True assms(2,3) show ?thesis
    by (cases existing) (auto split: option.splits)
next
  case False
  from assms(1) False obtain d0 a where
    loop: "updateLoop now \<lparr>newestDateU = dateToFraction (newestReminder existing),
                          lastRowid = rowid, newCompleted = 0, newPending = 0,
                          indexedRemindersU = [], batchU = [], dbU = d0\<rparr> delta = Inr a"
    and res: "stats = \<lparr>totalReminders =
                                     totalReminders existing
                                       + int (length (indexedRemindersU a)),
                                   totalLists = totalLists existing,
                                   completedReminders =
                                     completedReminders existing + newCompleted a,
                                   pendingReminders =
                                     pendingReminders existing + newPending a,
                                   indexedAt = Some now,
                                   oldestReminder = oldestReminder existing,
                                   newestReminder = fractionToDate (newestDateU a),
                                   lastIndexedRowid = Some (lastRowid a)\<rparr>"
    by (auto simp: updateFrom_def Let_def split: sum.splits option.splits)
  note L = updateLoop_Inr [OF loop]
  have "newestDateU \<lparr>newestDateU = dateToFraction (newestReminder existing),
                          lastRowid = rowid, newCompleted = 0, newPending = 0,
                          indexedRemindersU = [], batchU = [], dbU = d0\<rparr>
      = map_option (\<lambda>ms. of_int ms / 1000) (newestReminder existing)"
    by (simp add: dateToFraction_def split: option.splits)
  note M = updateLoop_marks [OF loop this]
  have ind: "indexedRemindersU a = canonicalOf now delta"
    using L by simp
  show ?thesis
    using L M
    by (cases "newestReminder existing")
       (simp_all add: res ind fractionToDate_def toInteger_of_int)
qed


section \<open>The worked examples\<close>

lemmas example_defs =
  database_def reminderRow_def emptyWorld_def indexedWorld_def pendingStats_def

lemmas build_eval =
  buildIndex_def buildFrom_def unlinkIndexDb_def buildLoop.simps BATCH_SIZE_def Let_def
  truthy_def orElse_def saveStats_def highestId_def secondsToDate_def newDate_def
  appendRecords_def emptyDb_def toRow_def toIndexed_def convertDate_def appleToUnix_def
  APPLE_EPOCH_OFFSET_def

lemmas update_eval =
  updateIndex_def updateFrom_def getStats_def parseDate_def selectNewReminders_def Let_def
  updateLoop.simps BATCH_SIZE_def truthy_def orElse_def saveStats_def dateToFraction_def
  fractionToDate_def toInteger_def newDate_def appendRecords_def emptyDb_def toRow_def
  isDatabaseName_def startsWith_def endsWith_def toIndexed_def convertDate_def
  appleToUnix_def APPLE_EPOCH_OFFSET_def

lemma storeA_query:
  "queryAllDatabases storeA = Inr [reminderRow 1 (Some ''a'') 10, reminderRow 2 (Some ''b'') 20]"
  by (simp add: storeA_def example_defs ingest_eval)

lemma storeAB_query:
  "queryAllDatabases storeAB =
     Inr [reminderRow 1 (Some ''a'') 10, reminderRow 2 (Some ''b'') 20,
          reminderRow 3 (Some ''c'') 30]"
  by (simp add: storeAB_def example_defs ingest_eval)

lemma storeA_full: "buildIndex 1000000 storeA emptyWorld = Inr (statsA 1000000, worldA 1000000)"
  by (simp add: buildIndex_def storeA_query)
     (simp add: build_eval example_defs statsA_def worldA_def)

lemma storeAB_incremental:
  "updateIndex 2000000 storeAB (worldA 1000000) = Inr (Some (statsA 2000000), worldA 2000000)"
  by (simp add: update_eval storeAB_def example_defs statsA_def worldA_def)

lemma storeAB_full: "buildIndex 2000000 storeAB emptyWorld = Inr (statsAB, worldAB)"
  by (simp add: buildIndex_def storeAB_query)
     (simp add: build_eval example_defs statsAB_def worldAB_def)

lemma storeP_query: "queryAllDatabases storeP = Inr [reminderRow 1 (Some ''a'') 10]"
  by (simp add: storeP_def example_defs ingest_eval)

lemma storeP_full:
  "buildIndex 1000000 storeP emptyWorld =
     Inr (pendingStats 1 1000000 978307210000 978307210000 1, worldP)"
  by (simp add: buildIndex_def storeP_query)
     (simp add: build_eval example_defs worldP_def)

lemma storePQ_incremental:
  "updateIndex 2000000 storePQ worldP =
     Inr (Some (pendingStats 3 2000000 978307210000 978307220000 9), worldPQ)"
  by (simp add: update_eval storePQ_def example_defs worldP_def worldPQ_def)

lemma storeA_rebuilt: "buildIndex 3000000 storeA worldAB = Inr (statsA 3000000, worldRebuilt)"
  by (simp add: buildIndex_def storeA_query)
     (simp add: build_eval example_defs statsA_def statsAB_def worldAB_def worldRebuilt_def)

lemma storeM_query:
  "queryAllDatabases storeM =
     Inr [rowIn 5 1 (Some []) 5, reminderRow 2 (Some ''a'') 10, rowIn 4 3 None 20]"
  by (simp add: storeM_def rowIn_def example_defs ingest_eval)

lemma storeM_full:
  "buildIndex 1000000 storeM emptyWorld =
     Inr (pendingStats 1 1000000 978307210000 978307210000 2, worldM)"
  by (simp add: buildIndex_def storeM_query)
     (simp add: build_eval rowIn_def example_defs worldM_def)

lemma storeM'_incremental:
  "updateIndex 2000000 storeM' worldM =
     Inr (Some (pendingStats 2 2000000 978307210000 978307230000 5), worldM')"
  by (simp add: update_eval storeM'_def rowIn_def example_defs worldM_def worldM'_def)

section \<open>Ingestion: colliding key strings\<close>

text \<open>
  C2. One store holds a reminder titled \<^verbatim>\<open>a|b\<close> in the list \<^verbatim>\<open>c\<close>, a reminder titled \<^verbatim>\<open>a\<close>
  in the list \<^verbatim>\<open>b|c\<close> created in the same second, and Buy milk in the list named
  Reminders; a second store holds Buy milk, created in that second, in no list. Of the two,
  the ingestion returns three rows, numbered 1, 2, 3. It drops the reminder titled \<^verbatim>\<open>a\<close> in
  the list \<^verbatim>\<open>b|c\<close>: its title and list name differ from those of the reminder titled
  \<^verbatim>\<open>a|b\<close> in the list \<^verbatim>\<open>c\<close> scanned before it, but the two have the same key string. It
  keeps both Buy milk rows, whose key strings differ in the list name, and the full rebuild
  makes of them two canonical records with the same title, the same list name Reminders and
  the same creation timestamp.
\<close>

theorem dedup_key_collisions:
  "scanOf storeK =
     [listed 7 ''a|b'' (Some ''c'') 20, listed 9 ''a'' (Some ''b|c'') 20,
      listed 10 ''Buy milk'' (Some ''Reminders'') 40, listed 4 ''Buy milk'' None 40]
   \<and> queryAllDatabases storeK =
       Inr [listed 1 ''a|b'' (Some ''c'') 20, listed 2 ''Buy milk'' (Some ''Reminders'') 40,
            listed 3 ''Buy milk'' None 40]
   \<and> naturalKey (listed 9 ''a'' (Some ''b|c'') 20) \<noteq> naturalKey (listed 7 ''a|b'' (Some ''c'') 20)
   \<and> dedupKey (listed 9 ''a'' (Some ''b|c'') 20) = ''a|b|c|20''
   \<and> dedupKey (listed 7 ''a|b'' (Some ''c'') 20) = ''a|b|c|20''
   \<and> dedupKey (listed 10 ''Buy milk'' (Some ''Reminders'') 40) = ''Buy milk|Reminders|40''
   \<and> dedupKey (listed 4 ''Buy milk'' None 40) = ''Buy milk|null|40''
   \<and> buildIndex 1000000 storeK emptyWorld =
       Inr (pendingStats 3 1000000 978307220000 978307240000 3, worldK)
   \<and> fuzzyJson worldK = Some keptK
   \<and> map (\<lambda>d. (reminderId d, title d, listName d, creationDate d)) keptK =
       [(1, ''a|b'', ''c'', 978307220), (2, ''Buy milk'', ''Reminders'', 978307240),
        (3, ''Buy milk'', ''Reminders'', 978307240)]"
proof (intro conjI)
  show "scanOf storeK =
     [listed 7 ''a|b'' (Some ''c'') 20, listed 9 ''a'' (Some ''b|c'') 20,
      listed 10 ''Buy milk'' (Some ''Reminders'') 40, listed 4 ''Buy milk'' None 40]"
    by (simp add: scanOf_def storeK_def listed_def example_defs selectReminders_def
        isDatabaseName_def startsWith_def endsWith_def)
  show q: "queryAllDatabases storeK =
       Inr [listed 1 ''a|b'' (Some ''c'') 20, listed 2 ''Buy milk'' (Some ''Reminders'') 40,
            listed 3 ''Buy milk'' None 40]"
    by (simp add: storeK_def listed_def example_defs ingest_eval)
  show "naturalKey (listed 9 ''a'' (Some ''b|c'') 20) \<noteq> naturalKey (listed 7 ''a|b'' (Some ''c'') 20)"
    by (simp add: naturalKey_def listed_def reminderRow_def)
  show "dedupKey (listed 9 ''a'' (Some ''b|c'') 20) = ''a|b|c|20''"
    and "dedupKey (listed 7 ''a|b'' (Some ''c'') 20) = ''a|b|c|20''"
    and "dedupKey (listed 10 ''Buy milk'' (Some ''Reminders'') 40) = ''Buy milk|Reminders|40''"
    and "dedupKey (listed 4 ''Buy milk'' None 40) = ''Buy milk|null|40''"
    by (simp_all add: listed_def reminderRow_def dedupKey_def strToString_def numToString_def
        natToString.simps digitChar_def)
  show "buildIndex 1000000 storeK emptyWorld =
       Inr (pendingStats 3 1000000 978307220000 978307240000 3, worldK)"
    by (simp add: buildIndex_def q)
       (simp add: build_eval listed_def example_defs worldK_def keptK_def)
  show "fuzzyJson worldK = Some keptK"
    by (simp add: worldK_def indexedWorld_def)
  show "map (\<lambda>d. (reminderId d, title d, listName d, creationDate d)) keptK =
       [(1, ''a|b'', ''c'', 978307220), (2, ''Buy milk'', ''Reminders'', 978307240),
        (3, ''Buy milk'', ''Reminders'', 978307240)]"
    by (simp add: keptK_def listed_def reminderRow_def toIndexed_def orElse_def appleToUnix_def
        APPLE_EPOCH_OFFSET_def)
qed

section \<open>The high-water-mark\<close>

lemma getStats_rowid:
  "getStats w = Some existing \<Longrightarrow> persistedRowid w = lastIndexedRowid existing"
  by (auto simp: getStats_def persistedRowid_def split: option.splits)

lemma updateIndex_Some:
  assumes "updateIndex now src w = Inr (Some stats, w')"
  shows "\<exists>existing rowid. getStats w = Some existing \<and> lastIndexedRowid existing = Some rowid
           \<and> updateFrom now existing rowid (deltaOf rowid src) w = Inr (Some stats, w')"
  using assms
  by (auto simp: updateIndex_def deltaOf_def split: option.splits sum.splits if_splits)

text \<open>
  C5, as the code has it. A successful incremental update persists a high-water-mark that
  is not below the one persisted before. A full rebuild numbers the records anew from 1 and
  persists the highest identifier it gave to a titled record, whatever was persisted before.
\<close>

theorem incremental_high_water_mark:
  "(updateIndex now src w = Inr (Some stats, w') \<longrightarrow>
      (\<exists>old new. persistedRowid w = Some old \<and> persistedRowid w' = Some new
         \<and> lastIndexedRowid stats = Some new \<and> old \<le> new))
   \<and> (buildIndex now src w = Inr (bstats, bw') \<and> queryAllDatabases src = Inr rs \<longrightarrow>
        persistedRowid bw' = Some (highestId 0 (canonicalOf now rs)))"
proof (intro conjI impI)
  assume "updateIndex now src w = Inr (Some stats, w')"
  from updateIndex_Some [OF this] obtain existing rowid where
    ex: "getStats w = Some existing" and row: "lastIndexedRowid existing = Some rowid"
    and upd: "updateFrom now existing rowid (deltaOf rowid src) w = Inr (Some stats, w')"
    by blast
  from updateFrom_Inr [OF upd row] getStats_rowid [OF ex] row
  show "\<exists>old new. persistedRowid w = Some old \<and> persistedRowid w' = Some new
         \<and> lastIndexedRowid stats = Some new \<and> old \<le> new"
    by (auto simp: persistedRowid_def)
next
  assume "buildIndex now src w = Inr (bstats, bw') \<and> queryAllDatabases src = Inr rs"
  then have "buildFrom now rs w = Inr (bstats, bw')"
    by (auto simp: buildIndex_def)
  from buildFrom_Inr [OF this] show "persistedRowid bw' = Some (highestId 0 (canonicalOf now rs))"
    by (auto simp: persistedRowid_def)
qed

theorem incremental_high_water_mark_witness:
  "updateIndex 2000000 storePQ worldP =
     Inr (Some (pendingStats 3 2000000 978307210000 978307220000 9), worldPQ)
   \<and> persistedRowid worldP = Some 1 \<and> persistedRowid worldPQ = Some 9
   \<and> buildIndex 1000000 storeP emptyWorld =
       Inr (pendingStats 1 1000000 978307210000 978307210000 1, worldP)
   \<and> queryAllDatabases storeP = Inr [reminderRow 1 (Some ''a'') 10]
   \<and> persistedRowid worldP = Some (highestId 0 (canonicalOf 1000000 [reminderRow 1 (Some ''a'') 10]))"
  using incremental_high_water_mark [of 2000000 storePQ worldP
      "pendingStats 3 2000000 978307210000 978307220000 9" worldPQ] 
    incremental_high_water_mark [of 1000000 storeP emptyWorld _ _
      "pendingStats 1 1000000 978307210000 978307210000 1" worldP "[reminderRow 1 (Some ''a'') 10]"]
    storePQ_incremental storeP_full storeP_query
  by (simp add: persistedRowid_def worldP_def worldPQ_def example_defs)

text \<open>
  C5 as stated fails for the full rebuild: the index of two stores with three reminders has
  the high-water-mark 3, and the full rebuild that follows the removal of the second store
  persists 2.
\<close>

theorem full_rebuild_lowers_mark_counterexample:
  "buildIndex 2000000 storeAB emptyWorld = Inr (statsAB, worldAB)
   \<and> persistedRowid worldAB = Some 3
   \<and> buildIndex 3000000 storeA worldAB = Inr (statsA 3000000, worldRebuilt)
   \<and> persistedRowid worldRebuilt = Some 2"
  using storeAB_full storeA_rebuilt
  by (simp add: persistedRowid_def worldAB_def worldRebuilt_def statsAB_def statsA_def
      example_defs)

section \<open>Incremental update with nothing new\<close>

text \<open>
  When the update reads no row past the high-water-mark, it returns the stats record it
  read with only the indexed-at timestamp replaced and writes that record to the stats
  file; both stores are untouched. The record it read is the one the file held when the
  three dates of the file are valid.
\<close>

lemma empty_delta_update:
  assumes "getStats w = Some existing" and "lastIndexedRowid existing = Some rowid"
    and "rowid \<noteq> 0" and "foundDatabases src" and "deltaOf rowid src = []"
  shows "updateIndex now src w =
           Inr (Some (existing\<lparr>indexedAt := Some now\<rparr>),
                w\<lparr>statsJson := Some (existing\<lparr>indexedAt := Some now\<rparr>)\<rparr>)"
  using assms
  by (auto simp: updateIndex_def updateFrom_def deltaOf_def foundDatabases_def saveStats_def
      Let_def split: sum.splits)

lemma parseDate_valid: "validDate d \<Longrightarrow> parseDate d = d"
  by (auto simp: validDate_def parseDate_def newDate_def split: option.splits)

lemma getStats_valid:
  assumes "statsJson w = Some data" and "validDate (indexedAt data)"
    and "validDate (oldestReminder data)" and "validDate (newestReminder data)"
  shows "getStats w = Some data"
  using assms by (simp add: getStats_def parseDate_valid)

lemma empty_delta_valid_dates:
  assumes "statsJson w = Some data" and "validDate (indexedAt data)"
    and "validDate (oldestReminder data)" and "validDate (newestReminder data)"
    and "lastIndexedRowid data = Some rowid"
    and "rowid \<noteq> 0" and "foundDatabases src" and "deltaOf rowid src = []"
  shows "updateIndex now src w =
           Inr (Some (data\<lparr>indexedAt := Some now\<rparr>),
                w\<lparr>statsJson := Some (data\<lparr>indexedAt := Some now\<rparr>)\<rparr>)"
  by (rule empty_delta_update [OF getStats_valid [OF assms(1-4)] assms(5-8)])

lemma worldA_stats: "getStats (worldA 1000000) = Some (statsA 1000000)"
  by (simp add: getStats_def parseDate_def newDate_def worldA_def statsA_def example_defs)

lemma storeA_delta: "foundDatabases storeA \<and> deltaOf 2 storeA = []"
  by (simp add: foundDatabases_def deltaOf_def storeA_def example_defs selectNewReminders_def
      isDatabaseName_def startsWith_def endsWith_def)

lemma storeA_empty_delta:
  "updateIndex 2000000 storeA (worldA 1000000) =
       Inr (Some ((statsA 1000000)\<lparr>indexedAt := Some 2000000\<rparr>),
            (worldA 1000000)\<lparr>statsJson := Some ((statsA 1000000)\<lparr>indexedAt := Some 2000000\<rparr>)\<rparr>)"
proof -
  have row: "lastIndexedRowid (statsA 1000000) = Some 2"
    by (simp add: statsA_def pendingStats_def)
  have nz: "(2::int) \<noteq> 0" by simp
  show ?thesis
    by (rule empty_delta_update [OF worldA_stats row nz conjunct1 [OF storeA_delta]
          conjunct2 [OF storeA_delta]])
qed

text \<open>
  C9. A store whose only reminder was created beyond the range of a date: the full rebuild
  writes a stats record whose oldest and newest reminder dates are \<^verbatim>\<open>null\<close>, with the
  high-water-mark 1. An incremental update of the unchanged store then reads no row past
  the mark, and the stats record it writes differs from the one it found in three fields:
  the indexed-at timestamp, and the oldest and newest reminder dates, which have become the
  epoch.
\<close>

theorem empty_delta_rewrites_null_dates:
  "buildIndex 1000000 storeF emptyWorld = Inr (statsF, worldF)
   \<and> statsJson worldF = Some statsF
   \<and> oldestReminder statsF = None \<and> newestReminder statsF = None
   \<and> lastIndexedRowid statsF = Some 1
   \<and> deltaOf 1 storeF = []
   \<and> updateIndex 2000000 storeF worldF =
       Inr (Some (statsF\<lparr>indexedAt := Some 2000000, oldestReminder := Some 0,
                         newestReminder := Some 0\<rparr>),
            worldF\<lparr>statsJson :=
                     Some (statsF\<lparr>indexedAt := Some 2000000, oldestReminder := Some 0,
                                  newestReminder := Some 0\<rparr>)\<rparr>)"
proof (intro conjI)
  have q: "queryAllDatabases storeF = Inr [reminderRow 1 (Some ''a'') 10000000000000]"
    by (simp add: storeF_def example_defs ingest_eval)
  show "buildIndex 1000000 storeF emptyWorld = Inr (statsF, worldF)"
    by (simp add: buildIndex_def q) (simp add: build_eval example_defs statsF_def worldF_def)
  show "statsJson worldF = Some statsF"
    by (simp add: worldF_def indexedWorld_def)
  show "oldestReminder statsF = None" and "newestReminder statsF = None"
    and "lastIndexedRowid statsF = Some 1"
    by (simp_all add: statsF_def)
  show "deltaOf 1 storeF = []"
    by (simp add: deltaOf_def storeF_def example_defs selectNewReminders_def
        isDatabaseName_def startsWith_def endsWith_def)
  show "updateIndex 2000000 storeF worldF =
       Inr (Some (statsF\<lparr>indexedAt := Some 2000000, oldestReminder := Some 0,
                         newestReminder := Some 0\<rparr>),
            worldF\<lparr>statsJson :=
                     Some (statsF\<lparr>indexedAt := Some 2000000, oldestReminder := Some 0,
                                  newestReminder := Some 0\<rparr>)\<rparr>)"
    by (simp add: update_eval storeF_def example_defs statsF_def worldF_def)
qed

section \<open>Untitled records\<close>

lemma getStats_newest:
  assumes "getStats w = Some existing" and "newestReminder existing = Some ms"
  shows "newDate ms = Some ms"
  using assms
  by (auto simp: getStats_def parseDate_def newDate_def split: option.splits if_splits)

text \<open>
  C8. After a full rebuild both stores hold exactly the canonical records of the titled rows
  of the ingested sequence, and every field of the stats record is computed from these
  records alone: the three counts, the number of distinct lists, the oldest and newest
  creation dates and the high-water-mark. An incremental update appends to both stores
  exactly the canonical records of the titled rows of its delta, and every field of the
  stats record it writes is computed from the record it read and these records alone. A row
  whose title is \<^verbatim>\<open>null\<close> or empty has no canonical record, and every canonical record has a
  title.
\<close>

theorem untitled_records_excluded:
  "(buildIndex now src w = Inr (stats, w') \<and> queryAllDatabases src = Inr rs \<longrightarrow>
      (let kept = canonicalOf now rs in
         indexDb w' = Some (appendRecords kept emptyDb)
       \<and> fuzzyJson w' = Some kept
       \<and> statsJson w' = Some stats
       \<and> stats =
           \<lparr>totalReminders = int (length kept),
            totalLists = int (card (listId ` set kept)),
            completedReminders = int (length (filter completed kept)),
            pendingReminders = int (length (filter (\<lambda>r. \<not> completed r) kept)),
            indexedAt = Some now,
            oldestReminder =
              (if kept = [] then None else newDate (Min (creationDate ` set kept) * 1000)),
            newestReminder = newDate (Max (insert 0 (creationDate ` set kept)) * 1000),
            lastIndexedRowid = Some (Max (insert 0 (reminderId ` set kept)))\<rparr>))
   \<and> (updateIndex now src w = Inr (Some ustats, uw') \<and> getStats w = Some existing
        \<and> lastIndexedRowid existing = Some rowid \<longrightarrow>
      (let kept = canonicalOf now (deltaOf rowid src) in
         indexDb uw' = map_option (appendRecords kept) (indexDb w)
       \<and> fuzzyJson uw' = map_option (\<lambda>docs. docs @ kept) (fuzzyJson w)
       \<and> statsJson uw' = Some ustats
       \<and> ustats =
           \<lparr>totalReminders = totalReminders existing + int (length kept),
            totalLists = totalLists existing,
            completedReminders = completedReminders existing + int (length (filter completed kept)),
            pendingReminders =
              pendingReminders existing + int (length (filter (\<lambda>r. \<not> completed r) kept)),
            indexedAt = Some now,
            oldestReminder = oldestReminder existing,
            newestReminder =
              (case newestReminder existing of
                 None \<Rightarrow> None
               | Some ms \<Rightarrow>
                   newDate (Max (insert ms ((\<lambda>d. creationDate d * 1000) ` set kept)))),
            lastIndexedRowid = Some (Max (insert rowid (reminderId ` set kept)))\<rparr>))
   \<and> canonicalOf now xs = map (toIndexed now) (filter (\<lambda>r. jTitle r \<noteq> None \<and> jTitle r \<noteq> Some []) xs)
   \<and> (\<forall>d\<in>set (canonicalOf now xs). title d \<noteq> [])"
  unfolding Let_def
proof (intro conjI impI ballI)
  assume "buildIndex now src w = Inr (stats, w') \<and> queryAllDatabases src = Inr rs"
  then have build: "buildFrom now rs w = Inr (stats, w')"
    by (auto simp: buildIndex_def)
  note B = buildFrom_Inr [OF build]
  show "indexDb w' = Some (appendRecords (canonicalOf now rs) emptyDb)"
    by (subst conjunct1 [OF B]) simp
  show "fuzzyJson w' = Some (canonicalOf now rs)"
    by (subst conjunct1 [OF B]) simp
  show "statsJson w' = Some stats"
    by (subst conjunct1 [OF B]) simp
  show "stats =
           \<lparr>totalReminders = int (length (canonicalOf now rs)),
            totalLists = int (card (listId ` set (canonicalOf now rs))),
            completedReminders = int (length (filter completed (canonicalOf now rs))),
            pendingReminders = int (length (filter (\<lambda>r. \<not> completed r) (canonicalOf now rs))),
            indexedAt = Some now,
            oldestReminder =
              (if canonicalOf now rs = [] then None
               else newDate (Min (creationDate ` set (canonicalOf now rs)) * 1000)),
            newestReminder = newDate (Max (insert 0 (creationDate ` set (canonicalOf now rs))) * 1000),
            lastIndexedRowid = Some (Max (insert 0 (reminderId ` set (canonicalOf now rs))))\<rparr>"
    by (rule buildFrom_stats [OF build])
next
  assume a: "updateIndex now src w = Inr (Some ustats, uw') \<and> getStats w = Some existing
        \<and> lastIndexedRowid existing = Some rowid"
  from updateIndex_Some [of now src w ustats uw'] a
  have upd: "updateFrom now existing rowid (deltaOf rowid src) w = Inr (Some ustats, uw')"
    by auto
  from a have row: "lastIndexedRowid existing = Some rowid"
    by simp
  from a have stats: "getStats w = Some existing"
    by simp
  note U = updateFrom_Inr [OF upd row]
  show "indexDb uw' = map_option (appendRecords (canonicalOf now (deltaOf rowid src))) (indexDb w)"
    using U by auto
  show "fuzzyJson uw' = map_option (\<lambda>docs. docs @ canonicalOf now (deltaOf rowid src)) (fuzzyJson w)"
    using U by auto
  show "statsJson uw' = Some ustats"
    using U by auto
  show "ustats =
           \<lparr>totalReminders = totalReminders existing + int (length (canonicalOf now (deltaOf rowid src))),
            totalLists = totalLists existing,
            completedReminders =
              completedReminders existing
                + int (length (filter completed (canonicalOf now (deltaOf rowid src)))),
            pendingReminders =
              pendingReminders existing
                + int (length (filter (\<lambda>r. \<not> completed r) (canonicalOf now (deltaOf rowid src)))),
            indexedAt = Some now,
            oldestReminder = oldestReminder existing,
            newestReminder =
              (case newestReminder existing of
                 None \<Rightarrow> None
               | Some ms \<Rightarrow>
                   newDate (Max (insert ms ((\<lambda>d. creationDate d * 1000)
                                              ` set (canonicalOf now (deltaOf rowid src)))))),
            lastIndexedRowid =
              Some (Max (insert rowid (reminderId ` set (canonicalOf now (deltaOf rowid src)))))\<rparr>"
    by (rule updateFrom_stats [OF upd row getStats_newest [OF stats]])
next
  have "titled = (\<lambda>r. jTitle r \<noteq> None \<and> jTitle r \<noteq> Some [])"
    by (auto simp: titled_def truthy_def fun_eq_iff split: option.splits)
  then show "canonicalOf now xs
      = map (toIndexed now) (filter (\<lambda>r. jTitle r \<noteq> None \<and> jTitle r \<noteq> Some []) xs)"
    by (simp add: canonicalOf_def)
next
  fix d assume "d \<in> set (canonicalOf now xs)"
  then show "title d \<noteq> []"
    by (rule title_canonicalOf)
qed

lemma storeM'_delta:
  "deltaOf 2 storeM' = [rowIn 5 3 (Some []) 5, reminderRow 5 (Some ''c'') 30, rowIn 7 6 None 40]"
  by (simp add: deltaOf_def storeM'_def rowIn_def example_defs selectNewReminders_def
      isDatabaseName_def startsWith_def endsWith_def)

lemma worldM_stats: "getStats worldM = Some (pendingStats 1 1000000 978307210000 978307210000 2)"
  by (simp add: getStats_def parseDate_def newDate_def worldM_def example_defs)

theorem untitled_records_excluded_witness:
  "buildIndex 1000000 storeM emptyWorld =
     Inr (pendingStats 1 1000000 978307210000 978307210000 2, worldM)
   \<and> queryAllDatabases storeM =
       Inr [rowIn 5 1 (Some []) 5, reminderRow 2 (Some ''a'') 10, rowIn 4 3 None 20]
   \<and> canonicalOf 1000000 [rowIn 5 1 (Some []) 5, reminderRow 2 (Some ''a'') 10, rowIn 4 3 None 20]
       = [toIndexed 1000000 (reminderRow 2 (Some ''a'') 10)]
   \<and> fuzzyJson worldM = Some [toIndexed 1000000 (reminderRow 2 (Some ''a'') 10)]
   \<and> indexedTitles worldM = [''a'']
   \<and> pendingStats 1 1000000 978307210000 978307210000 2 =
       \<lparr>totalReminders = 1, totalLists = 1, completedReminders = 0, pendingReminders = 1,
        indexedAt = Some 1000000, oldestReminder = Some 978307210000,
        newestReminder = Some 978307210000, lastIndexedRowid = Some 2\<rparr>
   \<and> updateIndex 2000000 storeM' worldM =
       Inr (Some (pendingStats 2 2000000 978307210000 978307230000 5), worldM')
   \<and> getStats worldM = Some (pendingStats 1 1000000 978307210000 978307210000 2)
   \<and> deltaOf 2 storeM' =
       [rowIn 5 3 (Some []) 5, reminderRow 5 (Some ''c'') 30, rowIn 7 6 None 40]
   \<and> canonicalOf 2000000 [rowIn 5 3 (Some []) 5, reminderRow 5 (Some ''c'') 30, rowIn 7 6 None 40]
       = [toIndexed 2000000 (reminderRow 5 (Some ''c'') 30)]
   \<and> fuzzyJson worldM' =
       Some ([toIndexed 1000000 (reminderRow 2 (Some ''a'') 10)]
             @ [toIndexed 2000000 (reminderRow 5 (Some ''c'') 30)])
   \<and> indexedTitles worldM' = [''a'', ''c'']
   \<and> pendingStats 2 2000000 978307210000 978307230000 5 =
       \<lparr>totalReminders = 1 + 1, totalLists = 1, completedReminders = 0, pendingReminders = 1 + 1,
        indexedAt = Some 2000000, oldestReminder = Some 978307210000,
        newestReminder = Some 978307230000, lastIndexedRowid = Some 5\<rparr>"
proof -
  have row: "lastIndexedRowid (pendingStats 1 1000000 978307210000 978307210000 2) = Some 2"
    by (simp add: pendingStats_def)
  have can1: "canonicalOf 1000000
      [rowIn 5 1 (Some []) 5, reminderRow 2 (Some ''a'') 10, rowIn 4 3 None 20]
      = [toIndexed 1000000 (reminderRow 2 (Some ''a'') 10)]"
    by (simp add: canonicalOf_def titled_def truthy_def rowIn_def reminderRow_def)
  have can2: "canonicalOf 2000000
      [rowIn 5 3 (Some []) 5, reminderRow 5 (Some ''c'') 30, rowIn 7 6 None 40]
      = [toIndexed 2000000 (reminderRow 5 (Some ''c'') 30)]"
    by (simp add: canonicalOf_def titled_def truthy_def rowIn_def reminderRow_def)
  have fz: "fuzzyJson worldM = Some [toIndexed 1000000 (reminderRow 2 (Some ''a'') 10)]"
    by (simp add: worldM_def indexedWorld_def)
  have vals:
    "listId (toIndexed 1000000 (reminderRow 2 (Some ''a'') 10)) = 3"
    "creationDate (toIndexed 1000000 (reminderRow 2 (Some ''a'') 10)) = 978307210"
    "creationDate (toIndexed 2000000 (reminderRow 5 (Some ''c'') 30)) = 978307230"
    "jCompleted (reminderRow 2 (Some ''a'') 10) = 0"
    "jCompleted (reminderRow 5 (Some ''c'') 30) = 0"
    "jId (reminderRow 2 (Some ''a'') 10) = 2"
    "jId (reminderRow 5 (Some ''c'') 30) = 5"
    by (simp_all add: toIndexed_def reminderRow_def appleToUnix_def APPLE_EPOCH_OFFSET_def)
  from conjunct1 [OF untitled_records_excluded [where now = 1000000 and src = storeM
      and w = emptyWorld and stats = "pendingStats 1 1000000 978307210000 978307210000 2"
      and w' = worldM
      and rs = "[rowIn 5 1 (Some []) 5, reminderRow 2 (Some ''a'') 10, rowIn 4 3 None 20]"]]
    storeM_full storeM_query
  have b: "fuzzyJson worldM = Some [toIndexed 1000000 (reminderRow 2 (Some ''a'') 10)]
      \<and> pendingStats 1 1000000 978307210000 978307210000 2 =
       \<lparr>totalReminders = 1, totalLists = 1, completedReminders = 0, pendingReminders = 1,
        indexedAt = Some 1000000, oldestReminder = Some 978307210000,
        newestReminder = Some 978307210000, lastIndexedRowid = Some 2\<rparr>"
    by (simp add: can1 vals newDate_def Let_def)
  from conjunct1 [OF conjunct2 [OF untitled_records_excluded [where now = 2000000
      and src = storeM' and w = worldM
      and ustats = "pendingStats 2 2000000 978307210000 978307230000 5" and uw' = worldM'
      and existing = "pendingStats 1 1000000 978307210000 978307210000 2" and rowid = 2]]]
    storeM'_incremental worldM_stats row
  have u: "fuzzyJson worldM' =
       Some ([toIndexed 1000000 (reminderRow 2 (Some ''a'') 10)]
             @ [toIndexed 2000000 (reminderRow 5 (Some ''c'') 30)])
     \<and> pendingStats 2 2000000 978307210000 978307230000 5 =
       \<lparr>totalReminders = 1 + 1, totalLists = 1, completedReminders = 0, pendingReminders = 1 + 1,
        indexedAt = Some 2000000, oldestReminder = Some 978307210000,
        newestReminder = Some 978307230000, lastIndexedRowid = Some 5\<rparr>"
    by (simp add: storeM'_delta can2 fz vals newDate_def Let_def pendingStats_def)
  have t1: "indexedTitles worldM = [''a'']"
    by (simp add: indexedTitles_def worldM_def indexedWorld_def appendRecords_def emptyDb_def
        toRow_def toIndexed_def orElse_def reminderRow_def)
  have t2: "indexedTitles worldM' = [''a'', ''c'']"
    by (simp add: indexedTitles_def worldM'_def indexedWorld_def appendRecords_def emptyDb_def
        toRow_def toIndexed_def orElse_def reminderRow_def)
  from b u t1 t2 can1 can2 storeM_full storeM_query storeM'_incremental worldM_stats storeM'_delta
  show ?thesis by blast
qed

section \<open>Freshness\<close>

lemma ensureIndex_no_index:
  "\<not> indexExists w \<Longrightarrow> ensureIndex now src w = fullRebuild now src w"
  by (simp add: ensureIndex_def indexNeedsRebuild_def)

lemma foundDatabases_query:
  "foundDatabases src \<Longrightarrow> \<exists>rs. queryAllDatabases src = Inr rs"
  by (auto simp: foundDatabases_def queryAllDatabases_def split: sum.splits)

text \<open>
  C6, as the code has it. With no index and a source database found, the check runs the
  full rebuild and reports \<^verbatim>\<open>full\<close>. With an index and no source database found, it reports
  \<^verbatim>\<open>none\<close> and changes nothing. With no index and no source database found, the full
  rebuild it starts raises the databases-not-found error.
\<close>

theorem ensureIndex_contract:
  "(\<not> indexExists w \<and> foundDatabases src \<longrightarrow> (\<exists>w'. ensureIndex now src w = Inr (Full, w')))
   \<and> (indexExists w \<and> findRemindersDatabases src = Inr [] \<longrightarrow>
        ensureIndex now src w = Inr (UpToDate, w))
   \<and> (\<not> indexExists w \<and> findRemindersDatabases src = Inr [] \<longrightarrow>
        ensureIndex now src w = Inl SourceNotFound)"
proof (intro conjI impI)
  assume a: "\<not> indexExists w \<and> foundDatabases src"
  then obtain rs where "queryAllDatabases src = Inr rs"
    using foundDatabases_query by blast
  from buildIndex_ok [OF this, of now w] obtain stats w'
    where "buildIndex now src w = Inr (stats, w')"
    by blast
  with a show "\<exists>w'. ensureIndex now src w = Inr (Full, w')"
    by (simp add: ensureIndex_no_index fullRebuild_def)
next
  assume "indexExists w \<and> findRemindersDatabases src = Inr []"
  then show "ensureIndex now src w = Inr (UpToDate, w)"
    by (simp add: ensureIndex_def indexNeedsRebuild_def)
next
  assume a: "\<not> indexExists w \<and> findRemindersDatabases src = Inr []"
  then have "queryAllDatabases src = Inl SourceNotFound"
    by (simp add: queryAllDatabases_SourceNotFound)
  with a show "ensureIndex now src w = Inl SourceNotFound"
    by (simp add: ensureIndex_no_index fullRebuild_def buildIndex_def)
qed

lemma storeA_found: "foundDatabases storeA"
  by (simp add: foundDatabases_def storeA_def example_defs isDatabaseName_def startsWith_def
      endsWith_def)

lemma storeA_ensure: "ensureIndex 1000000 storeA emptyWorld = Inr (Full, worldA 1000000)"
  using storeA_full
  by (simp add: ensureIndex_no_index fullRebuild_def indexExists_def emptyWorld_def)

theorem ensureIndex_contract_witness:
  "\<not> indexExists emptyWorld \<and> foundDatabases storeA
   \<and> ensureIndex 1000000 storeA emptyWorld = Inr (Full, worldA 1000000)
   \<and> indexExists pendingStore \<and> findRemindersDatabases Absent = Inr []
   \<and> ensureIndex 0 Absent pendingStore = Inr (UpToDate, pendingStore)
   \<and> ensureIndex 0 Absent emptyWorld = Inl SourceNotFound"
proof -
  have e: "\<not> indexExists emptyWorld"
    by (simp add: indexExists_def emptyWorld_def)
  have p: "indexExists pendingStore"
    by (simp add: indexExists_def pendingStore_def storeWorld_def)
  have f: "findRemindersDatabases Absent = Inr []"
    by simp
  from ensureIndex_contract [of pendingStore Absent 0] p f
  have 2: "ensureIndex 0 Absent pendingStore = Inr (UpToDate, pendingStore)"
    by blast
  from ensureIndex_contract [of emptyWorld Absent 0] e f
  have 3: "ensureIndex 0 Absent emptyWorld = Inl SourceNotFound"
    by blast
  from e p f 2 3 storeA_found storeA_ensure show ?thesis
    by blast
qed

text \<open>
  C6 as stated fails where no index exists and the source directory is empty: the check
  neither reports \<^verbatim>\<open>none\<close> nor returns.
\<close>

theorem no_index_empty_source_counterexample:
  "\<not> indexExists emptyWorld \<and> findRemindersDatabases (Listing []) = Inr []
   \<and> ensureIndex 0 (Listing []) emptyWorld = Inl SourceNotFound
   \<and> ensureIndex 0 (Listing []) emptyWorld \<noteq> Inr (UpToDate, emptyWorld)"
  by (simp add: ensureIndex_def indexNeedsRebuild_def indexExists_def emptyWorld_def
      fullRebuild_def buildIndex_def queryAllDatabases_def)

section \<open>Full rebuild followed by an incremental update\<close>

text \<open>
  C1 fails on the code. The full rebuild of one store with the reminders a and b persists
  the high-water-mark 2, the highest identifier it assigned. A second store is then added
  whose only reminder c has the source identifier 1: the update reads the rows with a source
  identifier above 2, finds none, and leaves the index with a and b, where a full rebuild
  holds a, b and c.
\<close>

theorem incremental_update_misses_record:
  "buildIndex 1000000 storeA emptyWorld = Inr (statsA 1000000, worldA 1000000)
   \<and> updateIndex 2000000 storeAB (worldA 1000000) = Inr (Some (statsA 2000000), worldA 2000000)
   \<and> buildIndex 2000000 storeAB emptyWorld = Inr (statsAB, worldAB)
   \<and> indexedTitles (worldA 2000000) = [''a'', ''b'']
   \<and> indexedTitles worldAB = [''a'', ''b'', ''c'']"
  using storeA_full storeAB_incremental storeAB_full
  by (simp add: indexedTitles_def worldA_def worldAB_def indexedWorld_def appendRecords_def
      emptyDb_def toRow_def toIndexed_def orElse_def reminderRow_def)

text \<open>
  The other way round, a store whose one reminder has the source identifier 7 is rebuilt
  with the high-water-mark 1, and the next update indexes that reminder a second time.
\<close>

lemma incremental_update_duplicates:
  "buildIndex 1000000 storeP emptyWorld =
     Inr (pendingStats 1 1000000 978307210000 978307210000 1, worldP)
   \<and> updateIndex 2000000 storePQ worldP =
       Inr (Some (pendingStats 3 2000000 978307210000 978307220000 9), worldPQ)
   \<and> indexedTitles worldPQ = [''a'', ''a'', ''b'']"
  using storeP_full storePQ_incremental
  by (simp add: indexedTitles_def worldPQ_def indexedWorld_def appendRecords_def
      emptyDb_def toRow_def toIndexed_def orElse_def reminderRow_def)

end
